theory Spec2Isabelle
  imports Complex_Main "HOL-Library.Log_Nat" "HOL-Library.AList"
begin

section \<open>Python values and exceptions\<close>

text \<open>
  The exceptions that the operators of \<^verbatim>\<open>dataproc.py\<close> raise or let through.
  \<^verbatim>\<open>AlreadyExists\<close> and \<^verbatim>\<open>NotFound\<close> are the two
  \<^verbatim>\<open>google.api_core.exceptions\<close> the module imports; \<open>RemoteError\<close> stands for
  any other exception a hook call raises, and \<open>JobExecutionError\<close> is the name the
  specification gives to the failure of a job. \<open>OverflowError\<close> is what \<^verbatim>\<open>int(float('inf'))\<close>
  and an out-of-range \<^verbatim>\<open>timedelta\<close> raise.
\<close>

datatype exn =
    AirflowException string
  | ValueError string
  | OverflowError
  | AlreadyExists
  | NotFound
  | JobExecutionError
  | RemoteError string

text \<open>
  The dictionaries the module builds are heterogeneous, so their values live in one
  universe; a dictionary is an association list in insertion order.
\<close>

datatype json =
    JNone
  | JBool bool
  | JInt int
  | JStr string
  | JList "json list"
  | JDict "(string \<times> json) list"

section \<open>Duration strings\<close>

text \<open>
  Strings are lists of 8-bit characters, so the model covers code points below 256; there
  \<^verbatim>\<open>\d\<close> is exactly \<^verbatim>\<open>[0-9]\<close>.
\<close>

definition is_digit :: "char \<Rightarrow> bool" where
  "is_digit c = (c \<in> set ''0123456789'')"

definition digit_val :: "char \<Rightarrow> nat" where
  "digit_val c = of_char c - 48"

text \<open>\<^verbatim>\<open>int(match.group(1))\<close>: the decimal value of a run of digits.\<close>

definition int_of_digits :: "string \<Rightarrow> nat" where
  "int_of_digits ds = foldl (\<lambda>a c. 10 * a + digit_val c) 0 ds"

text \<open>
  \<^verbatim>\<open>re.match(r"^(\d+)([<units>])$", s)\<close>: the two groups, or \<open>None\<close>.
  \<open>re_match_core\<close> matches a run of digits and one unit character against the whole
  of its argument. In Python \<^verbatim>\<open>$\<close> also matches just before a line feed that ends
  the string, so \<open>re_match\<close> drops one trailing line feed first.
\<close>

definition re_match_core :: "string \<Rightarrow> string \<Rightarrow> (string \<times> char) option" where
  "re_match_core units t =
     (if t = [] then None
      else if butlast t \<noteq> [] \<and> list_all is_digit (butlast t) \<and> last t \<in> set units
           then Some (butlast t, last t)
           else None)"

definition re_match :: "string \<Rightarrow> string \<Rightarrow> (string \<times> char) option" where
  "re_match units s =
     (if s \<noteq> [] \<and> last s = CHR 0x0A then re_match_core units (butlast s)
      else re_match_core units s)"

text \<open>
  \<^verbatim>\<open>float(match.group(1))\<close>: the double nearest to the integer (ties to even),
  \<open>None\<close> for infinity. Integers below \<open>2 ^ 53\<close> are exact.
\<close>

definition py_float :: "nat \<Rightarrow> nat option" where
  "py_float n =
     (if n < 2 ^ 53 then Some n
      else let e = floorlog 2 n - 53;
               q = n div 2 ^ e;
               r = n mod 2 ^ e;
               q' = (if 2 ^ (e - 1) < r \<or> (r = 2 ^ (e - 1) \<and> odd q) then q + 1 else q)
           in if 2 ^ 1024 \<le> q' * 2 ^ e then None else Some (q' * 2 ^ e))"

text \<open>\<^verbatim>\<open>int(val)\<close> on a float: \<^verbatim>\<open>OverflowError\<close> on infinity.\<close>

definition py_int :: "nat option \<Rightarrow> exn + int" where
  "py_int v = (case v of None \<Rightarrow> Inl OverflowError | Some n \<Rightarrow> Inr (int n))"

text \<open>
  \<^verbatim>\<open>int(timedelta(<unit>=val).total_seconds())\<close> for a unit of \<open>k\<close> seconds. A
  \<^verbatim>\<open>timedelta\<close> holds fewer than \<open>10 ^ 9\<close> days and raises
  \<^verbatim>\<open>OverflowError\<close> beyond; within that range the second count is exact.
\<close>

definition timedelta_total_seconds :: "nat \<Rightarrow> nat option \<Rightarrow> exn + int" where
  "timedelta_total_seconds k v =
     (case v of
        None \<Rightarrow> Inl OverflowError
      | Some n \<Rightarrow> if 86400 * 10 ^ 9 \<le> n * k then Inl OverflowError else Inr (int (n * k)))"

subsection \<open>ClusterGenerator._get_init_action_timeout\<close>

definition init_action_timeout_error :: exn where
  "init_action_timeout_error =
     AirflowException
       (''DataprocClusterCreateOperator init_action_timeout'' @
        '' should be expressed in minutes or seconds. i.e. 10m, 30s'')"

definition get_init_action_timeout :: "string \<Rightarrow> exn + json" where
  "get_init_action_timeout init_action_timeout =
     (case re_match ''sm'' init_action_timeout of
        Some (g1, g2) \<Rightarrow>
          (let val = py_float (int_of_digits g1) in
           if g2 = CHR ''s'' then
             (case py_int val of
                Inl e \<Rightarrow> Inl e
              | Inr n \<Rightarrow> Inr (JDict [(''seconds'', JInt n)]))
           else if g2 = CHR ''m'' then
             (case timedelta_total_seconds 60 val of
                Inl e \<Rightarrow> Inl e
              | Inr n \<Rightarrow> Inr (JDict [(''seconds'', JInt n)]))
           else Inl init_action_timeout_error)
      | None \<Rightarrow> Inl init_action_timeout_error)"

subsection \<open>DataprocScaleClusterOperator._graceful_decommission_timeout_object\<close>



section \<open>ClusterGenerator\<close>

text \<open>
  Python truthiness, as the \<^verbatim>\<open>if self.x:\<close> tests of the class use it: an optional
  string, list or dictionary is true when it is present and non-empty, an optional integer
  when it is present and not zero, an optional boolean when it is \<open>True\<close>. A
  \<^verbatim>\<open>datetime\<close> is true whenever it is present.
\<close>

definition truthy :: "'a list option \<Rightarrow> bool" where
  "truthy x = (case x of None \<Rightarrow> False | Some v \<Rightarrow> v \<noteq> [])"

definition truthy_int :: "int option \<Rightarrow> bool" where
  "truthy_int x = (case x of None \<Rightarrow> False | Some n \<Rightarrow> n \<noteq> 0)"

definition truthy_bool :: "bool option \<Rightarrow> bool" where
  "truthy_bool x = (x = Some True)"

text \<open>
  The arguments of \<^verbatim>\<open>ClusterGenerator.__init__\<close>, which the constructor copies to
  attributes of the same names. The type \<open>'dt\<close> is \<^verbatim>\<open>datetime\<close>.
\<close>

record 'dt cluster_generator_args =
  project_id :: string
  num_workers :: "int option"
  zone :: "string option"
  network_uri :: "string option"
  subnetwork_uri :: "string option"
  internal_ip_only :: "bool option"
  tags :: "string list option"
  storage_bucket :: "string option"
  init_actions_uris :: "string list option"
  init_action_timeout :: string
  metadata :: "(string \<times> json) list option"
  custom_image :: "string option"
  custom_image_project_id :: "string option"
  custom_image_family :: "string option"
  image_version :: "string option"
  autoscaling_policy :: "string option"
  properties :: "(string \<times> json) list option"
  optional_components :: "string list option"
  num_masters :: int
  master_machine_type :: string
  master_disk_type :: string
  master_disk_size :: int
  worker_machine_type :: string
  worker_disk_type :: string
  worker_disk_size :: int
  num_preemptible_workers :: int
  service_account :: "string option"
  service_account_scopes :: "string list option"
  idle_delete_ttl :: "int option"
  auto_delete_time :: "'dt option"
  auto_delete_ttl :: "int option"
  customer_managed_key :: "string option"
  enable_component_gateway :: "bool option"

text \<open>The constructed object: the same attributes and \<^verbatim>\<open>single_node\<close>.\<close>

record 'dt cluster_generator = "'dt cluster_generator_args" +
  single_node :: bool

text \<open>
  \<^verbatim>\<open>__init__\<close> (lines 207 to 252): \<^verbatim>\<open>self.properties = properties or {}\<close>,
  \<^verbatim>\<open>self.single_node = num_workers == 0\<close>, then the four checks in order.
\<close>

definition ClusterGenerator_init ::
    "'dt cluster_generator_args \<Rightarrow> exn + 'dt cluster_generator" where
  "ClusterGenerator_init args =
     (let self = cluster_generator_args.extend
                   (args\<lparr>properties :=
                            Some (case properties args of None \<Rightarrow> [] | Some d \<Rightarrow> d)\<rparr>)
                   (cluster_generator.fields (num_workers args = Some 0))
      in if truthy (custom_image self) \<and> truthy (image_version self) then
           Inl (ValueError ''The custom_image and image_version can't be both set'')
         else if truthy (custom_image_family self) \<and> truthy (image_version self) then
           Inl (ValueError ''The image_version and custom_image_family can't be both set'')
         else if truthy (custom_image_family self) \<and> truthy (custom_image self) then
           Inl (ValueError ''The custom_image and custom_image_family can't be both set'')
         else if single_node self \<and> num_preemptible_workers self > 0 then
           Inl (ValueError ''Single node cannot have preemptible workers.'')
         else Inr self)"

text \<open>
  \<^verbatim>\<open>cluster_data\<close>: the nine sub-dictionaries of the literal at lines 324 to 348 are
  always present, so they are fields; \<^verbatim>\<open>config_bucket\<close> and
  \<^verbatim>\<open>initialization_actions\<close> are keys added on demand.
\<close>

record cluster_data =
  gce_cluster_config :: "(string \<times> json) list"
  master_config :: "(string \<times> json) list"
  worker_config :: "(string \<times> json) list"
  secondary_worker_config :: "(string \<times> json) list"
  software_config :: "(string \<times> json) list"
  lifecycle_config :: "(string \<times> json) list"
  encryption_config :: "(string \<times> json) list"
  autoscaling_config :: "(string \<times> json) list"
  endpoint_config :: "(string \<times> json) list"
  config_bucket :: "json option"
  initialization_actions :: "json option"

definition json_opt_int :: "int option \<Rightarrow> json" where
  "json_opt_int x = (case x of None \<Rightarrow> JNone | Some n \<Rightarrow> JInt n)"

definition internal_ip_only_error :: exn where
  "internal_ip_only_error =
     AirflowException ''Set internal_ip_only to true only when you pass a subnetwork_uri.''"

text \<open>
  \<^verbatim>\<open>if cond: cluster_data['gce_cluster_config'][key] = v\<close>, the statement that
  \<^verbatim>\<open>_build_gce_cluster_config\<close> repeats: \<open>when_do\<close> is the conditional,
  \<open>gce_set\<close> the assignment.
\<close>

definition when_do :: "bool \<Rightarrow> ('a \<Rightarrow> 'a) \<Rightarrow> 'a \<Rightarrow> 'a" where
  "when_do c f x = (if c then f x else x)"

definition gce_set :: "string \<Rightarrow> json \<Rightarrow> cluster_data \<Rightarrow> cluster_data" where
  "gce_set key v cluster_data =
     cluster_data\<lparr>gce_cluster_config :=
       AList.update key v (gce_cluster_config cluster_data)\<rparr>"

definition build_gce_cluster_config ::
    "'dt cluster_generator \<Rightarrow> cluster_data \<Rightarrow> exn + cluster_data" where
  "build_gce_cluster_config self cluster_data =
     (let cd1 = when_do (truthy (zone self))
                  (gce_set ''zone_uri''
                     (JStr (''https://www.googleapis.com/compute/v1/projects/'' @
                            project_id self @ ''/zones/'' @ the (zone self))))
                  cluster_data;
          cd2 = when_do (truthy (metadata self))
                  (gce_set ''metadata'' (JDict (the (metadata self)))) cd1;
          cd3 = when_do (truthy (network_uri self))
                  (gce_set ''network_uri'' (JStr (the (network_uri self)))) cd2;
          cd4 = when_do (truthy (subnetwork_uri self))
                  (gce_set ''subnetwork_uri'' (JStr (the (subnetwork_uri self)))) cd3
      in if truthy_bool (internal_ip_only self) \<and> \<not> truthy (subnetwork_uri self) then
           Inl internal_ip_only_error
         else
           (let cd5 = when_do (truthy_bool (internal_ip_only self))
                        (gce_set ''internal_ip_only'' (JBool True)) cd4;
                cd6 = when_do (truthy (tags self))
                        (gce_set ''tags'' (JList (map JStr (the (tags self))))) cd5;
                cd7 = when_do (truthy (service_account self))
                        (gce_set ''service_account'' (JStr (the (service_account self)))) cd6;
                cd8 = when_do (truthy (service_account_scopes self))
                        (gce_set ''service_account_scopes''
                           (JList (map JStr (the (service_account_scopes self))))) cd7
            in Inr cd8))"

text \<open>
  \<^verbatim>\<open>_build_lifecycle_config\<close>. The parameter \<open>strftime_utc\<close> is
  \<^verbatim>\<open>timezone.convert_to_utc(t).strftime('%Y-%m-%dT%H:%M:%S.%fZ')\<close>, whose code is
  outside this module.
\<close>

definition build_lifecycle_config ::
    "('dt \<Rightarrow> string) \<Rightarrow> 'dt cluster_generator \<Rightarrow> cluster_data \<Rightarrow> cluster_data" where
  "build_lifecycle_config strftime_utc self cluster_data =
     (let cd1 = (if truthy_int (idle_delete_ttl self) then
                   cluster_data\<lparr>lifecycle_config :=
                     AList.update ''idle_delete_ttl''
                       (JDict [(''seconds'', JInt (the (idle_delete_ttl self)))])
                       (lifecycle_config cluster_data)\<rparr>
                 else cluster_data)
      in if auto_delete_time self \<noteq> None then
           cd1\<lparr>lifecycle_config :=
             AList.update ''auto_delete_time''
               (JStr (strftime_utc (the (auto_delete_time self))))
               (lifecycle_config cd1)\<rparr>
         else if truthy_int (auto_delete_ttl self) then
           cd1\<lparr>lifecycle_config :=
             AList.update ''auto_delete_ttl''
               (JDict [(''seconds'', JInt (the (auto_delete_ttl self)))])
               (lifecycle_config cd1)\<rparr>
         else cd1)"

text \<open>
  The list comprehension of lines 400 to 403 calls \<^verbatim>\<open>_get_init_action_timeout\<close>
  once for each URI; the first call that raises ends it.
\<close>

fun init_actions_dict :: "string \<Rightarrow> string list \<Rightarrow> exn + json list" where
  "init_actions_dict t [] = Inr []"
| "init_actions_dict t (uri # uris) =
     (case get_init_action_timeout t of
        Inl e \<Rightarrow> Inl e
      | Inr execution_timeout \<Rightarrow>
          (case init_actions_dict t uris of
             Inl e \<Rightarrow> Inl e
           | Inr rest \<Rightarrow>
               Inr (JDict [(''executable_file'', JStr uri),
                           (''execution_timeout'', execution_timeout)] # rest)))"

definition custom_image_url :: "'dt cluster_generator \<Rightarrow> string" where
  "custom_image_url self =
     ''https://www.googleapis.com/compute/beta/projects/'' @
     (if truthy (custom_image_project_id self) then the (custom_image_project_id self)
      else project_id self) @
     ''/global/images/'' @ the (custom_image self)"

definition custom_image_family_url :: "'dt cluster_generator \<Rightarrow> string" where
  "custom_image_family_url self =
     ''https://www.googleapis.com/compute/beta/projects/'' @
     (if truthy (custom_image_project_id self) then the (custom_image_project_id self)
      else project_id self) @
     ''/global/images/family/'' @ the (custom_image_family self)"

text \<open>
  \<^verbatim>\<open>_build_cluster_data\<close>, split at its blank lines into named steps: the literal
  with the machine-type URIs and the secondary workers (lines 313 to 358), the bucket and
  the image source (lines 360 to 384), the software configuration (lines 388 to 395), the
  initialization actions (lines 399 to 404) and the last three sections (lines 406 to
  411).
\<close>

definition initial_cluster_data :: "'dt cluster_generator \<Rightarrow> cluster_data" where
  "initial_cluster_data self =
     (let master_type_uri =
            (if truthy (zone self) then
               ''projects/'' @ project_id self @ ''/zones/'' @ the (zone self) @
               ''/machineTypes/'' @ master_machine_type self
             else master_machine_type self);
          worker_type_uri =
            (if truthy (zone self) then
               ''projects/'' @ project_id self @ ''/zones/'' @ the (zone self) @
               ''/machineTypes/'' @ worker_machine_type self
             else worker_machine_type self)
      in \<lparr>gce_cluster_config = [],
          master_config =
            [(''num_instances'', JInt (num_masters self)),
             (''machine_type_uri'', JStr master_type_uri),
             (''disk_config'',
                JDict [(''boot_disk_type'', JStr (master_disk_type self)),
                       (''boot_disk_size_gb'', JInt (master_disk_size self))])],
          worker_config =
            [(''num_instances'', json_opt_int (num_workers self)),
             (''machine_type_uri'', JStr worker_type_uri),
             (''disk_config'',
                JDict [(''boot_disk_type'', JStr (worker_disk_type self)),
                       (''boot_disk_size_gb'', JInt (worker_disk_size self))])],
          secondary_worker_config =
            (if num_preemptible_workers self > 0 then
               [(''num_instances'', JInt (num_preemptible_workers self)),
                (''machine_type_uri'', JStr worker_type_uri),
                (''disk_config'',
                   JDict [(''boot_disk_type'', JStr (worker_disk_type self)),
                          (''boot_disk_size_gb'', JInt (worker_disk_size self))]),
                (''is_preemptible'', JBool True)]
             else []),
          software_config = [],
          lifecycle_config = [],
          encryption_config = [],
          autoscaling_config = [],
          endpoint_config = [],
          config_bucket = None,
          initialization_actions = None\<rparr>)"

definition set_image_uri :: "'dt cluster_generator \<Rightarrow> string \<Rightarrow> cluster_data \<Rightarrow> cluster_data" where
  "set_image_uri self url cluster_data =
     (let m = cluster_data\<lparr>master_config :=
                AList.update ''image_uri'' (JStr url) (master_config cluster_data)\<rparr>
      in if \<not> single_node self then
           m\<lparr>worker_config := AList.update ''image_uri'' (JStr url) (worker_config m)\<rparr>
         else m)"

definition build_image_config :: "'dt cluster_generator \<Rightarrow> cluster_data \<Rightarrow> cluster_data" where
  "build_image_config self cluster_data =
     (let cd1 = (if truthy (storage_bucket self) then
                   cluster_data\<lparr>config_bucket := Some (JStr (the (storage_bucket self)))\<rparr>
                 else cluster_data)
      in if truthy (image_version self) then
           cd1\<lparr>software_config :=
             AList.update ''image_version'' (JStr (the (image_version self)))
               (software_config cd1)\<rparr>
         else if truthy (custom_image self) then
           set_image_uri self (custom_image_url self) cd1
         else if truthy (custom_image_family self) then
           set_image_uri self (custom_image_family_url self) cd1
         else cd1)"

text \<open>The assignment to \<^verbatim>\<open>self.properties\<close> at line 389 is kept in \<open>props\<close>.\<close>

definition build_software_config :: "'dt cluster_generator \<Rightarrow> cluster_data \<Rightarrow> cluster_data" where
  "build_software_config self cluster_data =
     (let props = (if single_node self then
                     Some (AList.update ''dataproc:dataproc.allow.zero.workers''
                             (JStr ''true'')
                             (case properties self of None \<Rightarrow> [] | Some d \<Rightarrow> d))
                   else properties self);
          cd1 = (if truthy props then
                   cluster_data\<lparr>software_config :=
                     AList.update ''properties'' (JDict (the props))
                       (software_config cluster_data)\<rparr>
                 else cluster_data)
      in if truthy (optional_components self) then
           cd1\<lparr>software_config :=
             AList.update ''optional_components''
               (JList (map JStr (the (optional_components self))))
               (software_config cd1)\<rparr>
         else cd1)"

definition build_initialization_actions ::
    "'dt cluster_generator \<Rightarrow> cluster_data \<Rightarrow> exn + cluster_data" where
  "build_initialization_actions self cluster_data =
     (if truthy (init_actions_uris self) then
        (case init_actions_dict (init_action_timeout self) (the (init_actions_uris self)) of
           Inl e \<Rightarrow> Inl e
         | Inr l \<Rightarrow> Inr (cluster_data\<lparr>initialization_actions := Some (JList l)\<rparr>))
      else Inr cluster_data)"

definition build_encryption_autoscaling_endpoint ::
    "'dt cluster_generator \<Rightarrow> cluster_data \<Rightarrow> cluster_data" where
  "build_encryption_autoscaling_endpoint self cluster_data =
     (let cd1 = (if truthy (customer_managed_key self) then
                   cluster_data\<lparr>encryption_config :=
                     [(''gce_pd_kms_key_name'', JStr (the (customer_managed_key self)))]\<rparr>
                 else cluster_data);
          cd2 = (if truthy (autoscaling_policy self) then
                   cd1\<lparr>autoscaling_config :=
                     [(''policy_uri'', JStr (the (autoscaling_policy self)))]\<rparr>
                 else cd1)
      in if truthy_bool (enable_component_gateway self) then
           cd2\<lparr>endpoint_config := [(''enable_http_port_access'', JBool True)]\<rparr>
         else cd2)"

definition build_cluster_data ::
    "('dt \<Rightarrow> string) \<Rightarrow> 'dt cluster_generator \<Rightarrow> exn + cluster_data" where
  "build_cluster_data strftime_utc self =
     (case build_gce_cluster_config self
             (build_image_config self (initial_cluster_data self)) of
        Inl e \<Rightarrow> Inl e
      | Inr cd \<Rightarrow>
          (case build_initialization_actions self
                  (build_lifecycle_config strftime_utc self
                     (build_software_config self cd)) of
             Inl e \<Rightarrow> Inl e
           | Inr cd' \<Rightarrow> Inr (build_encryption_autoscaling_endpoint self cd')))"

text \<open>\<^verbatim>\<open>ClusterGenerator.make\<close>.\<close>

definition ClusterGenerator_make ::
    "('dt \<Rightarrow> string) \<Rightarrow> 'dt cluster_generator \<Rightarrow> exn + cluster_data" where
  "ClusterGenerator_make strftime_utc self = build_cluster_data strftime_utc self"

text \<open>The defaults of the signature of \<^verbatim>\<open>ClusterGenerator.__init__\<close>.\<close>

definition ClusterGenerator_defaults :: "string \<Rightarrow> 'dt cluster_generator_args" where
  "ClusterGenerator_defaults p =
     \<lparr>project_id = p, num_workers = None, zone = None, network_uri = None,
      subnetwork_uri = None, internal_ip_only = None, tags = None, storage_bucket = None,
      init_actions_uris = None, init_action_timeout = ''10m'', metadata = None,
      custom_image = None, custom_image_project_id = None, custom_image_family = None,
      image_version = None, autoscaling_policy = None, properties = None,
      optional_components = None, num_masters = 1, master_machine_type = ''n1-standard-4'',
      master_disk_type = ''pd-standard'', master_disk_size = 1024,
      worker_machine_type = ''n1-standard-4'', worker_disk_type = ''pd-standard'',
      worker_disk_size = 1024, num_preemptible_workers = 0, service_account = None,
      service_account_scopes = None, idle_delete_ttl = None, auto_delete_time = None,
      auto_delete_ttl = None, customer_managed_key = None,
      enable_component_gateway = Some False\<rparr>"




section \<open>DataprocCreateClusterOperator\<close>

text \<open>
  Modelled from the spec: the \<^verbatim>\<open>Cluster\<close> message is not in this module. Section 3
  of the specification lists the states of a cluster. Here are
  the state of a cluster (\<^verbatim>\<open>cluster.status.state\<close>) and the part of the
  \<^verbatim>\<open>Cluster\<close> message the operator reads. The message type comes from
  \<^verbatim>\<open>google.cloud.dataproc_v1\<close>; the states are those the specification lists, and
  \<open>cluster_uuid\<close> tells two clusters of the same name apart.
\<close>

datatype cluster_state =
  UNKNOWN | CREATING | RUNNING | ERROR | UPDATING | DELETING | STOPPING | STOPPED

record cluster =
  status_state :: cluster_state
  cluster_uuid :: string

text \<open>
  What the operator does to the outside, in order: the record it pushes, the calls it makes
  on the hook, and the time it sleeps (in seconds, as a real number: rounding of
  floating-point subtraction is not modelled).
\<close>

datatype event =
    XcomPush string json
  | CreateCluster
  | GetCluster
  | DiagnoseCluster
  | DeleteCluster
  | Sleep real

definition calls :: "event \<Rightarrow> event list \<Rightarrow> nat" where
  "calls e tr = count_list tr e"

text \<open>
  Modelled from the spec: \<^verbatim>\<open>DataprocHook\<close> is not in this module. Section 6 of the
  specification gives the calls consumed from it; here each call is a script, the result
  of the \<open>k\<close>-th call of that kind (counting from \<open>0\<close>), and every call may raise.
  \<open>create_cluster_result\<close> stands for \<^verbatim>\<open>hook.create_cluster(...)\<close> followed by
  \<^verbatim>\<open>operation.result()\<close>.
\<close>

record dataproc_hook =
  create_cluster_result :: "nat \<Rightarrow> exn + cluster"
  get_cluster_result :: "nat \<Rightarrow> exn + cluster"
  diagnose_cluster_result :: "nat \<Rightarrow> exn + string"
  delete_cluster_result :: "nat \<Rightarrow> exn + unit"

text \<open>
  The attributes of the operator that \<^verbatim>\<open>execute\<close> reads; the others
  (\<^verbatim>\<open>cluster_config\<close>, \<^verbatim>\<open>labels\<close>, \<^verbatim>\<open>request_id\<close>, \<^verbatim>\<open>retry\<close>,
  \<^verbatim>\<open>metadata\<close>) are only handed to the hook.
\<close>

record create_cluster_operator =
  cluster_name :: string
  region :: string
  project_id :: "string option"
  timeout :: real
  delete_on_error :: bool
  use_if_exists :: bool

text \<open>
  A step of the operator takes the events so far and returns a value or an exception,
  with the events extended. \<open>and_then\<close> runs the next statement unless an exception
  is on its way.
\<close>

type_synonym 'a step = "event list \<Rightarrow> (exn + 'a) \<times> event list"

definition and_then :: "(exn + 'a) \<times> event list \<Rightarrow> ('a \<Rightarrow> 'b step) \<Rightarrow> (exn + 'b) \<times> event list" where
  "and_then m f = (case m of (Inl e, tr) \<Rightarrow> (Inl e, tr) | (Inr x, tr) \<Rightarrow> f x tr)"

definition create_cluster :: "create_cluster_operator \<Rightarrow> dataproc_hook \<Rightarrow> cluster step" where
  "create_cluster self hook tr =
     (create_cluster_result hook (calls CreateCluster tr), tr @ [CreateCluster])"

definition delete_cluster :: "create_cluster_operator \<Rightarrow> dataproc_hook \<Rightarrow> unit step" where
  "delete_cluster self hook tr =
     (delete_cluster_result hook (calls DeleteCluster tr), tr @ [DeleteCluster])"

definition get_cluster :: "create_cluster_operator \<Rightarrow> dataproc_hook \<Rightarrow> cluster step" where
  "get_cluster self hook tr =
     (get_cluster_result hook (calls GetCluster tr), tr @ [GetCluster])"

definition diagnose_cluster :: "create_cluster_operator \<Rightarrow> dataproc_hook \<Rightarrow> string step" where
  "diagnose_cluster self hook tr =
     (diagnose_cluster_result hook (calls DiagnoseCluster tr), tr @ [DiagnoseCluster])"

definition handle_error_state ::
    "create_cluster_operator \<Rightarrow> dataproc_hook \<Rightarrow> cluster \<Rightarrow> unit step" where
  "handle_error_state self hook cluster tr =
     (if status_state cluster \<noteq> ERROR then (Inr (), tr)
      else
        and_then (diagnose_cluster self hook tr) (\<lambda>gcs_uri tr1.
          if delete_on_error self then
            and_then (delete_cluster self hook tr1) (\<lambda>_ tr2.
              (Inl (AirflowException ''Cluster was created but was in ERROR state.''), tr2))
          else (Inl (AirflowException ''Cluster was created but is in ERROR state''), tr1)))"

text \<open>
  Modelled from the spec: \<^verbatim>\<open>exponential_sleep_generator\<close> is imported from
  \<^verbatim>\<open>google.api_core.retry\<close> and is not in this module. Section 4.4 of the
  specification: "exponential: initial=10s, cap=120s, no jitter specified". The
  \<open>n\<close>-th value it yields, counting from \<open>0\<close>, with the delay doubling.
\<close>

definition exponential_sleep_generator :: "real \<Rightarrow> real \<Rightarrow> nat \<Rightarrow> real" where
  "exponential_sleep_generator initial maximum n = min (initial * 2 ^ n) maximum"

definition still_deleting_error :: "create_cluster_operator \<Rightarrow> exn" where
  "still_deleting_error self =
     AirflowException (''Cluster '' @ cluster_name self @ '' is still DELETING state, aborting'')"

definition still_creating_error :: "create_cluster_operator \<Rightarrow> exn" where
  "still_creating_error self =
     AirflowException (''Cluster '' @ cluster_name self @ '' is still CREATING state, aborting'')"

text \<open>
  The \<^verbatim>\<open>for\<close> loop of \<^verbatim>\<open>_wait_for_cluster_in_deleting_state\<close>, entered for the
  \<open>n\<close>-th value of the generator with \<^verbatim>\<open>time_left\<close> seconds left. Only
  \<^verbatim>\<open>NotFound\<close> is caught; a cluster that is returned, in whatever state, continues the
  loop.
\<close>

function deleting_loop ::
    "create_cluster_operator \<Rightarrow> dataproc_hook \<Rightarrow> nat \<Rightarrow> real \<Rightarrow> unit step" where
  "deleting_loop self hook n time_left tr =
     (if time_left < 0 then (Inl (still_deleting_error self), tr)
      else
        (case get_cluster self hook (tr @ [Sleep (exponential_sleep_generator 10 120 n)]) of
           (Inl NotFound, tr') \<Rightarrow> (Inr (), tr')
         | (Inl e, tr') \<Rightarrow> (Inl e, tr')
         | (Inr c, tr') \<Rightarrow>
             deleting_loop self hook (Suc n)
               (time_left - exponential_sleep_generator 10 120 n) tr'))"
  by pat_completeness auto
termination
proof (relation "measure (\<lambda>(self, hook, n, time_left, tr). nat (\<lfloor>time_left\<rfloor> + 1))")
  show "wf (measure (\<lambda>(self, hook, n, time_left, tr). nat (\<lfloor>time_left\<rfloor> + 1)))"
    by simp
next
  fix self :: create_cluster_operator and hook :: dataproc_hook and n :: nat
    and time_left :: real and tr x1 x2 and b :: cluster
  assume "\<not> time_left < 0"
  moreover have "(10::real) \<le> exponential_sleep_generator 10 120 n"
    by (simp add: exponential_sleep_generator_def min_def)
  ultimately have "\<lfloor>time_left - exponential_sleep_generator 10 120 n\<rfloor> < \<lfloor>time_left\<rfloor>"
    and "0 \<le> \<lfloor>time_left\<rfloor>"
    by (simp_all add: floor_less_iff) linarith
  then show "((self, hook, Suc n, time_left - exponential_sleep_generator 10 120 n, x2),
              (self, hook, n, time_left, tr))
             \<in> measure (\<lambda>(self, hook, n, time_left, tr). nat (\<lfloor>time_left\<rfloor> + 1))"
    by simp
qed

definition wait_for_cluster_in_deleting_state ::
    "create_cluster_operator \<Rightarrow> dataproc_hook \<Rightarrow> unit step" where
  "wait_for_cluster_in_deleting_state self hook tr = deleting_loop self hook 0 (timeout self) tr"

text \<open>
  The loop of \<^verbatim>\<open>_wait_for_cluster_in_creating_state\<close>, with the cluster fetched last.
\<close>

function creating_loop ::
    "create_cluster_operator \<Rightarrow> dataproc_hook \<Rightarrow> nat \<Rightarrow> real \<Rightarrow> cluster \<Rightarrow> cluster step" where
  "creating_loop self hook n time_left cluster tr =
     (if status_state cluster \<noteq> CREATING then (Inr cluster, tr)
      else if time_left < 0 then (Inl (still_creating_error self), tr)
      else
        (case get_cluster self hook (tr @ [Sleep (exponential_sleep_generator 10 120 n)]) of
           (Inl e, tr') \<Rightarrow> (Inl e, tr')
         | (Inr c, tr') \<Rightarrow>
             creating_loop self hook (Suc n)
               (time_left - exponential_sleep_generator 10 120 n) c tr'))"
  by pat_completeness auto
termination
proof (relation "measure (\<lambda>(self, hook, n, time_left, c, tr). nat (\<lfloor>time_left\<rfloor> + 1))")
  show "wf (measure (\<lambda>(self, hook, n, time_left, c, tr). nat (\<lfloor>time_left\<rfloor> + 1)))"
    by simp
next
  fix self :: create_cluster_operator and hook :: dataproc_hook and n :: nat
    and time_left :: real and cluster :: cluster and tr x2 and c :: cluster
  assume "\<not> time_left < 0"
  moreover have "(10::real) \<le> exponential_sleep_generator 10 120 n"
    by (simp add: exponential_sleep_generator_def min_def)
  ultimately have "\<lfloor>time_left - exponential_sleep_generator 10 120 n\<rfloor> < \<lfloor>time_left\<rfloor>"
    and "0 \<le> \<lfloor>time_left\<rfloor>"
    by (simp_all add: floor_less_iff) linarith
  then show "((self, hook, Suc n, time_left - exponential_sleep_generator 10 120 n, c, x2),
              (self, hook, n, time_left, cluster, tr))
             \<in> measure (\<lambda>(self, hook, n, time_left, c, tr). nat (\<lfloor>time_left\<rfloor> + 1))"
    by simp
qed

definition wait_for_cluster_in_creating_state ::
    "create_cluster_operator \<Rightarrow> dataproc_hook \<Rightarrow> cluster step" where
  "wait_for_cluster_in_creating_state self hook tr =
     and_then (get_cluster self hook tr) (\<lambda>cluster tr'.
       creating_loop self hook 0 (timeout self) cluster tr')"

text \<open>The record that \<^verbatim>\<open>execute\<close> pushes under the key \<^verbatim>\<open>cluster_conf\<close>.\<close>

definition cluster_conf :: "create_cluster_operator \<Rightarrow> event" where
  "cluster_conf self =
     XcomPush ''cluster_conf''
       (JDict [(''cluster_name'', JStr (cluster_name self)),
               (''region'', JStr (region self)),
               (''project_id'',
                  (case project_id self of None \<Rightarrow> JNone | Some p \<Rightarrow> JStr p))])"

text \<open>Lines 637 to 644: create, and on \<^verbatim>\<open>AlreadyExists\<close> adopt or re-raise.\<close>

definition create_or_get :: "create_cluster_operator \<Rightarrow> dataproc_hook \<Rightarrow> cluster step" where
  "create_or_get self hook tr =
     (case create_cluster self hook tr of
        (Inl AlreadyExists, tr') \<Rightarrow>
          if \<not> use_if_exists self then (Inl AlreadyExists, tr')
          else get_cluster self hook tr'
      | (Inl e, tr') \<Rightarrow> (Inl e, tr')
      | (Inr cluster, tr') \<Rightarrow> (Inr cluster, tr'))"

text \<open>
  Lines 646 to 659: the check for \<^verbatim>\<open>ERROR\<close>, the two waits, and the value returned
  (\<^verbatim>\<open>Cluster.to_dict\<close> of the cluster, here the cluster itself).
\<close>

definition check_and_wait ::
    "create_cluster_operator \<Rightarrow> dataproc_hook \<Rightarrow> cluster \<Rightarrow> cluster step" where
  "check_and_wait self hook cluster tr =
     and_then (handle_error_state self hook cluster tr) (\<lambda>_ tr1.
       if status_state cluster = CREATING then
         and_then (wait_for_cluster_in_creating_state self hook tr1) (\<lambda>cluster' tr2.
           and_then (handle_error_state self hook cluster' tr2) (\<lambda>_ tr3.
             (Inr cluster', tr3)))
       else if status_state cluster = DELETING then
         and_then (wait_for_cluster_in_deleting_state self hook tr1) (\<lambda>_ tr2.
           and_then (create_cluster self hook tr2) (\<lambda>cluster' tr3.
             and_then (handle_error_state self hook cluster' tr3) (\<lambda>_ tr4.
               (Inr cluster', tr4))))
       else (Inr cluster, tr1))"

definition execute :: "create_cluster_operator \<Rightarrow> dataproc_hook \<Rightarrow> cluster step" where
  "execute self hook tr =
     and_then (create_or_get self hook (tr @ [cluster_conf self]))
       (check_and_wait self hook)"

subsection \<open>Reading a sequence of events\<close>

text \<open>
  The intervals slept, in order, and their sum: the sleep time the loops account for.
\<close>

fun sleeps :: "event list \<Rightarrow> real list" where
  "sleeps [] = []"
| "sleeps (Sleep d # tr) = d # sleeps tr"
| "sleeps (e # tr) = sleeps tr"

definition slept :: "event list \<Rightarrow> real" where
  "slept tr = sum_list (sleeps tr)"

fun is_xcom :: "event \<Rightarrow> bool" where
  "is_xcom (XcomPush key v) = True"
| "is_xcom e = False"

text \<open>
  The events of \<open>k\<close> rounds of a polling loop that starts with the \<open>n\<close>-th value of
  the generator, each round a sleep followed by a fetch, and the time these rounds sleep.
\<close>

fun poll_events :: "nat \<Rightarrow> nat \<Rightarrow> event list" where
  "poll_events n 0 = []"
| "poll_events n (Suc k) =
     Sleep (exponential_sleep_generator 10 120 n) # GetCluster # poll_events (Suc n) k"

fun backoff_total :: "nat \<Rightarrow> nat \<Rightarrow> real" where
  "backoff_total n 0 = 0"
| "backoff_total n (Suc k) = exponential_sleep_generator 10 120 n + backoff_total (Suc n) k"

text \<open>
  \<open>appends_quietly tr tr'\<close>: the events \<open>tr'\<close> continue \<open>tr\<close> and push no further
  record.
\<close>

definition appends_quietly :: "event list \<Rightarrow> event list \<Rightarrow> bool" where
  "appends_quietly tr tr' =
     (take (length tr) tr' = tr \<and> filter is_xcom (drop (length tr) tr') = [])"

subsection \<open>Example operators and hooks\<close>

definition example_operator :: "real \<Rightarrow> create_cluster_operator" where
  "example_operator t =
     \<lparr>cluster_name = ''cluster-1'', region = ''europe-west1'', project_id = Some ''proj'',
      timeout = t, delete_on_error = True, use_if_exists = True\<rparr>"

definition example_cluster :: "cluster_state \<Rightarrow> string \<Rightarrow> cluster" where
  "example_cluster s u = \<lparr>status_state = s, cluster_uuid = u\<rparr>"

text \<open>
  A remote side where the cluster already exists: the first create raises
  \<^verbatim>\<open>AlreadyExists\<close> and later ones return a running cluster; the first \<open>k\<close> fetches
  return the old cluster in state \<open>s\<close>, later ones raise \<^verbatim>\<open>NotFound\<close>.
\<close>

definition example_hook :: "cluster_state \<Rightarrow> nat \<Rightarrow> dataproc_hook" where
  "example_hook s k =
     \<lparr>create_cluster_result =
        (\<lambda>i. if i = 0 then Inl AlreadyExists else Inr (example_cluster RUNNING ''new'')),
      get_cluster_result =
        (\<lambda>i. if i < k then Inr (example_cluster s ''old'') else Inl NotFound),
      diagnose_cluster_result = (\<lambda>i. Inr ''gs://bucket/diagnostic.tar''),
      delete_cluster_result = (\<lambda>i. Inr ())\<rparr>"


section \<open>DataprocJobBaseOperator\<close>

text \<open>
  Line 964 of \<^verbatim>\<open>__init__\<close>: the states considered errors, \<open>{'ERROR'}\<close> when
  the caller passes none.
\<close>

definition init_job_error_states :: "string set option \<Rightarrow> string set" where
  "init_job_error_states job_error_states =
     (case job_error_states of None \<Rightarrow> {''ERROR''} | Some s \<Rightarrow> s)"

text \<open>
  The job template (\<^verbatim>\<open>DataProcJobBuilder\<close>, outside this module): of the job it
  builds, \<^verbatim>\<open>execute\<close> reads the job id under \<^verbatim>\<open>reference\<close>.
\<close>

record job_builder =
  built_job_id :: string

text \<open>
  The hook as a job submission sees it: what \<^verbatim>\<open>submit_job\<close> returns (the job id of
  \<^verbatim>\<open>job_object.reference\<close>) or raises, and the terminal state the job reaches.
\<close>

record job_hook =
  submit_job_result :: "exn + string"
  job_terminal_state :: string

record job_operator =
  job_template :: "job_builder option"
  region :: string
  project_id :: "string option"
  job_error_states :: "string set"
  asynchronous :: bool

datatype job_event = SubmitJob | PushJobConf json | WaitForJob

text \<open>
  Modelled from the spec: \<^verbatim>\<open>DataprocHook.wait_for_job\<close> is not in this module.
  Section 4.6 of the specification: it "blocks (synchronous polling of job state against
  job_error_states, default {ERROR}) until a terminal state; raises JobExecutionError if
  terminal state \<in> error-states".
\<close>

definition default_error_states :: "string set" where
  "default_error_states = {''ERROR''}"

definition wait_for_job :: "job_hook \<Rightarrow> string set \<Rightarrow> exn + unit" where
  "wait_for_job hook error_states =
     (if job_terminal_state hook \<in> error_states then Inl JobExecutionError else Inr ())"

text \<open>
  \<^verbatim>\<open>DataprocJobBaseOperator.execute\<close> (lines 999 to 1022). The call of
  \<^verbatim>\<open>wait_for_job\<close> passes the job id, the region and the project, and no error
  states: the hook polls against its default, \<open>default_error_states\<close>.
\<close>

definition DataprocJobBaseOperator_execute ::
    "job_operator \<Rightarrow> job_hook \<Rightarrow> (exn + string) \<times> job_event list" where
  "DataprocJobBaseOperator_execute self hook =
     (case job_template self of
        None \<Rightarrow> (Inl (AirflowException ''Create a job template before''), [])
      | Some template \<Rightarrow>
          (case submit_job_result hook of
             Inl e \<Rightarrow> (Inl e, [SubmitJob])
           | Inr job_id \<Rightarrow>
               (let tr = [SubmitJob,
                          PushJobConf
                            (JDict [(''job_id'', JStr job_id),
                                    (''region'', JStr (region self)),
                                    (''project_id'',
                                       (case project_id self of
                                          None \<Rightarrow> JNone | Some p \<Rightarrow> JStr p))])]
                in if \<not> asynchronous self then
                     (case wait_for_job hook default_error_states of
                        Inl e \<Rightarrow> (Inl e, tr @ [WaitForJob])
                      | Inr u \<Rightarrow> (Inr job_id, tr @ [WaitForJob]))
                   else (Inr job_id, tr))))"

definition example_job_operator :: job_operator where
  "example_job_operator =
     \<lparr>job_template = Some \<lparr>built_job_id = ''job_1a2b3c4d''\<rparr>, region = ''global'',
      project_id = Some ''proj'', job_error_states = init_job_error_states None,
      asynchronous = False\<rparr>"

definition example_job_hook :: "string \<Rightarrow> job_hook" where
  "example_job_hook s = \<lparr>submit_job_result = Inr ''job_1a2b3c4d'', job_terminal_state = s\<rparr>"

section \<open>Properties of the duration parsers\<close>

lemma re_match_unit: "re_match units s = Some (ds, u) \<Longrightarrow> u \<in> set units \<and> ds \<noteq> [] \<and> list_all is_digit ds"
  by (auto simp: re_match_def re_match_core_def split: if_splits)

lemma re_match_core_iff:
  "re_match_core units t = Some (ds, u) \<longleftrightarrow>
     t = ds @ [u] \<and> ds \<noteq> [] \<and> list_all is_digit ds \<and> u \<in> set units"
proof (cases "t = []")
  case True
  then show ?thesis by (simp add: re_match_core_def)
next
  case False
  then have t: "t = butlast t @ [last t]" by simp
  show ?thesis
  proof
    assume "re_match_core units t = Some (ds, u)"
    with False have "ds = butlast t" "u = last t" "ds \<noteq> []" "list_all is_digit ds" "u \<in> set units"
      by (simp_all add: re_match_core_def split: if_splits)
    with t show "t = ds @ [u] \<and> ds \<noteq> [] \<and> list_all is_digit ds \<and> u \<in> set units" by simp
  next
    assume "t = ds @ [u] \<and> ds \<noteq> [] \<and> list_all is_digit ds \<and> u \<in> set units"
    then show "re_match_core units t = Some (ds, u)" by (simp add: re_match_core_def)
  qed
qed

lemma re_match_iff:
  assumes "CHR 0x0A \<notin> set units"
  shows "re_match units s = Some (ds, u) \<longleftrightarrow>
     (s = ds @ [u] \<or> s = ds @ [u, CHR 0x0A]) \<and> ds \<noteq> [] \<and> list_all is_digit ds \<and> u \<in> set units"
proof (cases "s \<noteq> [] \<and> last s = CHR 0x0A")
  case True
  then have s: "s = butlast s @ [CHR 0x0A]" by (metis append_butlast_last_id)
  have n: "s \<noteq> ds @ [u]" if "u \<in> set units" using that True assms by auto
  have "butlast s = ds @ [u] \<longleftrightarrow> s = ds @ [u, CHR 0x0A]"
    using s by (metis append.assoc append_Cons append_Nil butlast_snoc)
  with True n show ?thesis by (auto simp: re_match_def re_match_core_iff)
next
  case False
  have "s \<noteq> ds @ [u, CHR 0x0A]" using False by auto
  with False show ?thesis by (auto simp: re_match_def re_match_core_iff)
qed




lemma get_init_action_timeout_error_iff:
  "get_init_action_timeout s = Inl init_action_timeout_error \<longleftrightarrow> re_match ''sm'' s = None"
proof (cases "re_match ''sm'' s")
  case None
  then show ?thesis by (simp add: get_init_action_timeout_def)
next
  case (Some p)
  obtain ds u where p: "p = (ds, u)" by (cases p)
  from re_match_unit[of "''sm''" s ds u] Some p have u: "u = CHR ''s'' \<or> u = CHR ''m''" by auto
  with Some p show ?thesis
    by (auto simp: get_init_action_timeout_def Let_def py_int_def timedelta_total_seconds_def
          init_action_timeout_error_def split: option.splits sum.splits)
qed








section \<open>Properties of the cluster configuration builder\<close>

lemmas gen_eval =
  ClusterGenerator_defaults_def ClusterGenerator_init_def truthy_def truthy_int_def
  truthy_bool_def cluster_generator_args.defs cluster_generator.defs




subsection \<open>The lifecycle section of the built configuration\<close>

lemma lifecycle_when_gce [simp]:
  "lifecycle_config (when_do c (gce_set k v) cd) = lifecycle_config cd"
  by (simp add: when_do_def gce_set_def)

lemma lifecycle_gce:
  "build_gce_cluster_config self cd = Inr cd' \<Longrightarrow> lifecycle_config cd' = lifecycle_config cd"
  unfolding build_gce_cluster_config_def Let_def
  by (cases "truthy_bool (internal_ip_only self) \<and> \<not> truthy (subnetwork_uri self)") auto

lemma lifecycle_initial: "lifecycle_config (initial_cluster_data self) = []"
  by (simp add: initial_cluster_data_def Let_def)

lemma lifecycle_image: "lifecycle_config (build_image_config self cd) = lifecycle_config cd"
  by (simp add: build_image_config_def set_image_uri_def Let_def)

lemma lifecycle_software:
  "lifecycle_config (build_software_config self cd) = lifecycle_config cd"
  by (simp add: build_software_config_def Let_def)

lemma lifecycle_init_actions:
  "build_initialization_actions self cd = Inr cd' \<Longrightarrow>
   lifecycle_config cd' = lifecycle_config cd"
  by (auto simp: build_initialization_actions_def split: if_splits sum.splits)

lemma lifecycle_tail:
  "lifecycle_config (build_encryption_autoscaling_endpoint self cd) = lifecycle_config cd"
  by (simp add: build_encryption_autoscaling_endpoint_def Let_def)

lemma lifecycle_build:
  "lifecycle_config cd = [] \<Longrightarrow>
   map_of (lifecycle_config (build_lifecycle_config fmt self cd)) =
     (\<lambda>k. if k = ''auto_delete_time'' \<and> auto_delete_time self \<noteq> None
            then Some (JStr (fmt (the (auto_delete_time self))))
          else if k = ''auto_delete_ttl'' \<and> auto_delete_time self = None \<and>
                  truthy_int (auto_delete_ttl self)
            then Some (JDict [(''seconds'', JInt (the (auto_delete_ttl self)))])
          else if k = ''idle_delete_ttl'' \<and> truthy_int (idle_delete_ttl self)
            then Some (JDict [(''seconds'', JInt (the (idle_delete_ttl self)))])
          else None)"
  by (auto simp: build_lifecycle_config_def Let_def update_conv' fun_eq_iff)

lemma make_lifecycle:
  assumes "ClusterGenerator_make fmt self = Inr cd"
  shows "map_of (lifecycle_config cd) =
     (\<lambda>k. if k = ''auto_delete_time'' \<and> auto_delete_time self \<noteq> None
            then Some (JStr (fmt (the (auto_delete_time self))))
          else if k = ''auto_delete_ttl'' \<and> auto_delete_time self = None \<and>
                  truthy_int (auto_delete_ttl self)
            then Some (JDict [(''seconds'', JInt (the (auto_delete_ttl self)))])
          else if k = ''idle_delete_ttl'' \<and> truthy_int (idle_delete_ttl self)
            then Some (JDict [(''seconds'', JInt (the (idle_delete_ttl self)))])
          else None)"
proof -
  from assms obtain cd1 cd2 where
    g: "build_gce_cluster_config self (build_image_config self (initial_cluster_data self))
          = Inr cd1"
    and i: "build_initialization_actions self
              (build_lifecycle_config fmt self (build_software_config self cd1)) = Inr cd2"
    and c: "cd = build_encryption_autoscaling_endpoint self cd2"
    by (auto simp: ClusterGenerator_make_def build_cluster_data_def split: sum.splits)
  have "lifecycle_config (build_software_config self cd1) = []"
    using lifecycle_gce[OF g] by (simp add: lifecycle_image lifecycle_initial lifecycle_software)
  from lifecycle_build[OF this] show ?thesis
    using lifecycle_init_actions[OF i] c by (simp add: lifecycle_tail)
qed

text \<open>
  Claim C7. In the lifecycle section of a built configuration the auto-delete time wins:
  whenever \<^verbatim>\<open>auto_delete_time\<close> is given, the section holds the formatted timestamp
  under \<^verbatim>\<open>auto_delete_time\<close> and has no \<^verbatim>\<open>auto_delete_ttl\<close> key, whatever
  \<^verbatim>\<open>auto_delete_ttl\<close> is; the key \<^verbatim>\<open>auto_delete_ttl\<close> appears only when
  \<^verbatim>\<open>auto_delete_time\<close> is absent.
\<close>

theorem auto_delete_time_wins:
  assumes "ClusterGenerator_make fmt self = Inr cd"
  shows "(auto_delete_time self \<noteq> None \<longrightarrow>
            map_of (lifecycle_config cd) ''auto_delete_time'' =
              Some (JStr (fmt (the (auto_delete_time self)))) \<and>
            map_of (lifecycle_config cd) ''auto_delete_ttl'' = None) \<and>
         (map_of (lifecycle_config cd) ''auto_delete_ttl'' \<noteq> None \<longrightarrow>
            auto_delete_time self = None)"
  by (simp add: make_lifecycle[OF assms])

lemmas make_eval =
  ClusterGenerator_make_def build_cluster_data_def build_gce_cluster_config_def when_do_def gce_set_def
  initial_cluster_data_def build_image_config_def set_image_uri_def build_software_config_def
  build_initialization_actions_def build_encryption_autoscaling_endpoint_def
  build_lifecycle_config_def custom_image_url_def custom_image_family_url_def json_opt_int_def

theorem auto_delete_time_wins_witness:
  "(ClusterGenerator_make (\<lambda>t. t) (projr (ClusterGenerator_init ((ClusterGenerator_defaults ''p'')
        \<lparr>num_workers := Some 2, auto_delete_time := Some ''2030-01-01T00:00:00.000000Z'',
          auto_delete_ttl := Some 300\<rparr>))) =
      Inr (projr (ClusterGenerator_make (\<lambda>t. t) (projr (ClusterGenerator_init ((ClusterGenerator_defaults ''p'')
        \<lparr>num_workers := Some 2, auto_delete_time := Some ''2030-01-01T00:00:00.000000Z'',
          auto_delete_ttl := Some 300\<rparr>))))) \<and>
    map_of (lifecycle_config (projr (ClusterGenerator_make (\<lambda>t. t) (projr (ClusterGenerator_init
        ((ClusterGenerator_defaults ''p'')
        \<lparr>num_workers := Some 2, auto_delete_time := Some ''2030-01-01T00:00:00.000000Z'',
          auto_delete_ttl := Some 300\<rparr>)))))) ''auto_delete_time'' =
      Some (JStr ''2030-01-01T00:00:00.000000Z'') \<and>
    map_of (lifecycle_config (projr (ClusterGenerator_make (\<lambda>t. t) (projr (ClusterGenerator_init
        ((ClusterGenerator_defaults ''p'')
        \<lparr>num_workers := Some 2, auto_delete_time := Some ''2030-01-01T00:00:00.000000Z'',
          auto_delete_ttl := Some 300\<rparr>)))))) ''auto_delete_ttl'' = None) \<and>
   (ClusterGenerator_make (\<lambda>t. t) (projr (ClusterGenerator_init
        ((ClusterGenerator_defaults ''p'' :: string cluster_generator_args)
        \<lparr>num_workers := Some 2, auto_delete_ttl := Some 300\<rparr>))) =
      Inr (projr (ClusterGenerator_make (\<lambda>t. t) (projr (ClusterGenerator_init
        ((ClusterGenerator_defaults ''p'' :: string cluster_generator_args)
        \<lparr>num_workers := Some 2, auto_delete_ttl := Some 300\<rparr>))))) \<and>
    map_of (lifecycle_config (projr (ClusterGenerator_make (\<lambda>t. t) (projr (ClusterGenerator_init
        ((ClusterGenerator_defaults ''p'' :: string cluster_generator_args)
        \<lparr>num_workers := Some 2, auto_delete_ttl := Some 300\<rparr>)))))) ''auto_delete_ttl'' \<noteq> None \<and>
    auto_delete_time (projr (ClusterGenerator_init
        ((ClusterGenerator_defaults ''p'' :: string cluster_generator_args)
        \<lparr>num_workers := Some 2, auto_delete_ttl := Some 300\<rparr>))) = None)"
proof -
  let ?g1 = "projr (ClusterGenerator_init ((ClusterGenerator_defaults ''p'')
        \<lparr>num_workers := Some 2, auto_delete_time := Some ''2030-01-01T00:00:00.000000Z'',
          auto_delete_ttl := Some 300\<rparr>))"
  let ?g2 = "projr (ClusterGenerator_init
        ((ClusterGenerator_defaults ''p'' :: string cluster_generator_args)
        \<lparr>num_workers := Some 2, auto_delete_ttl := Some 300\<rparr>))"
  have m1: "ClusterGenerator_make (\<lambda>t. t) ?g1 = Inr (projr (ClusterGenerator_make (\<lambda>t. t) ?g1))"
    by (simp add: make_eval gen_eval Let_def)
  have m2: "ClusterGenerator_make (\<lambda>t. t) ?g2 = Inr (projr (ClusterGenerator_make (\<lambda>t. t) ?g2))"
    by (simp add: make_eval gen_eval Let_def)
  have t1: "auto_delete_time ?g1 = Some ''2030-01-01T00:00:00.000000Z''"
    by (simp add: gen_eval)
  have k2: "map_of (lifecycle_config (projr (ClusterGenerator_make (\<lambda>t. t) ?g2))) ''auto_delete_ttl'' \<noteq> None"
    by (simp add: make_eval gen_eval Let_def)
  show ?thesis
    using auto_delete_time_wins[OF m1] auto_delete_time_wins[OF m2] m1 m2 t1 k2
    by simp
qed


subsection \<open>The initialization-action timeout\<close>

lemma init_actions_dict_error:
  "init_actions_dict t uris = Inl e \<Longrightarrow> uris \<noteq> [] \<and> get_init_action_timeout t = Inl e"
  by (induction uris) (auto split: sum.splits)

lemma init_actions_dict_raises:
  "uris \<noteq> [] \<Longrightarrow> get_init_action_timeout t = Inl e \<Longrightarrow> init_actions_dict t uris = Inl e"
  by (cases uris) auto

lemma build_gce_error:
  "build_gce_cluster_config self cd = Inl e \<Longrightarrow>
   e = internal_ip_only_error \<and> truthy_bool (internal_ip_only self) \<and>
   \<not> truthy (subnetwork_uri self)"
  unfolding build_gce_cluster_config_def Let_def
  by (cases "truthy_bool (internal_ip_only self) \<and> \<not> truthy (subnetwork_uri self)") auto

lemma build_gce_ok:
  "\<not> (truthy_bool (internal_ip_only self) \<and> \<not> truthy (subnetwork_uri self)) \<Longrightarrow>
   \<not> isl (build_gce_cluster_config self cd)"
  unfolding build_gce_cluster_config_def Let_def by auto

lemma errors_differ: "internal_ip_only_error \<noteq> init_action_timeout_error"
  by (simp add: internal_ip_only_error_def init_action_timeout_error_def)

lemma make_timeout_error:
  assumes "ClusterGenerator_make fmt self = Inl init_action_timeout_error"
  shows "truthy (init_actions_uris self) \<and> re_match ''sm'' (init_action_timeout self) = None"
proof (cases "build_gce_cluster_config self (build_image_config self (initial_cluster_data self))")
  case (Inl e)
  with assms have "e = init_action_timeout_error"
    by (simp add: ClusterGenerator_make_def build_cluster_data_def)
  with build_gce_error[OF Inl] errors_differ show ?thesis by simp
next
  case (Inr cd)
  with assms have "build_initialization_actions self
       (build_lifecycle_config fmt self (build_software_config self cd)) =
     Inl init_action_timeout_error"
    by (simp add: ClusterGenerator_make_def build_cluster_data_def split: sum.splits)
  then have "truthy (init_actions_uris self) \<and>
      init_actions_dict (init_action_timeout self) (the (init_actions_uris self)) =
        Inl init_action_timeout_error"
    by (auto simp: build_initialization_actions_def split: if_splits sum.splits)
  with init_actions_dict_error get_init_action_timeout_error_iff show ?thesis by blast
qed

lemma make_ignores_timeout:
  assumes "\<not> truthy (init_actions_uris self)"
  shows "ClusterGenerator_make fmt (self\<lparr>init_action_timeout := t\<rparr>) = ClusterGenerator_make fmt self"
proof -
  have e1: "build_gce_cluster_config (self\<lparr>init_action_timeout := t\<rparr>) = build_gce_cluster_config self"
    by (simp add: build_gce_cluster_config_def fun_eq_iff Let_def)
  have e2: "initial_cluster_data (self\<lparr>init_action_timeout := t\<rparr>) = initial_cluster_data self"
    by (simp add: initial_cluster_data_def Let_def)
  have e3: "build_image_config (self\<lparr>init_action_timeout := t\<rparr>) = build_image_config self"
    by (simp add: build_image_config_def set_image_uri_def custom_image_url_def
          custom_image_family_url_def fun_eq_iff Let_def)
  have e4: "build_software_config (self\<lparr>init_action_timeout := t\<rparr>) = build_software_config self"
    by (simp add: build_software_config_def fun_eq_iff Let_def)
  have e5: "build_lifecycle_config fmt (self\<lparr>init_action_timeout := t\<rparr>) =
      build_lifecycle_config fmt self"
    by (simp add: build_lifecycle_config_def fun_eq_iff Let_def)
  have e6: "build_encryption_autoscaling_endpoint (self\<lparr>init_action_timeout := t\<rparr>) =
      build_encryption_autoscaling_endpoint self"
    by (simp add: build_encryption_autoscaling_endpoint_def fun_eq_iff Let_def)
  have e7: "build_initialization_actions (self\<lparr>init_action_timeout := t\<rparr>) =
      build_initialization_actions self"
    using assms by (simp add: build_initialization_actions_def fun_eq_iff)
  show ?thesis
    unfolding ClusterGenerator_make_def build_cluster_data_def e1 e2 e3 e4 e5 e6 e7 by (rule refl)
qed

lemma make_raises_timeout:
  assumes "truthy (init_actions_uris self)"
    and "re_match ''sm'' (init_action_timeout self) = None"
    and "\<not> (truthy_bool (internal_ip_only self) \<and> \<not> truthy (subnetwork_uri self))"
  shows "ClusterGenerator_make fmt self = Inl init_action_timeout_error"
proof -
  from build_gce_ok[OF assms(3), of "build_image_config self (initial_cluster_data self)"]
  obtain cd where
    g: "build_gce_cluster_config self (build_image_config self (initial_cluster_data self)) = Inr cd"
    by (cases "build_gce_cluster_config self (build_image_config self (initial_cluster_data self))")
       auto
  from assms(1) have "the (init_actions_uris self) \<noteq> []"
    by (auto simp: truthy_def split: option.splits)
  moreover from assms(2) have "get_init_action_timeout (init_action_timeout self) =
      Inl init_action_timeout_error"
    by (simp add: get_init_action_timeout_error_iff)
  ultimately have "init_actions_dict (init_action_timeout self) (the (init_actions_uris self)) =
      Inl init_action_timeout_error"
    by (rule init_actions_dict_raises)
  with g assms(1) show ?thesis
    by (simp add: ClusterGenerator_make_def build_cluster_data_def build_initialization_actions_def)
qed

lemma init_ignores_timeout:
  "ClusterGenerator_init (args\<lparr>init_action_timeout := t\<rparr>) =
     map_sum id (\<lambda>self. self\<lparr>init_action_timeout := t\<rparr>) (ClusterGenerator_init args)"
  by (simp add: ClusterGenerator_init_def Let_def cluster_generator_args.defs
        cluster_generator.defs)

text \<open>
  Claim C10. The constructor never looks at \<^verbatim>\<open>init_action_timeout\<close>: it only
  stores the string, so a malformed one changes neither whether construction succeeds nor
  anything else of the object. \<^verbatim>\<open>make\<close> raises the malformed-timeout error only for
  a non-empty \<^verbatim>\<open>init_actions_uris\<close> and a string that does not match; with
  \<^verbatim>\<open>init_actions_uris\<close> empty or absent the result of \<^verbatim>\<open>make\<close> does not depend on
  the string at all, so a malformed string raises nothing. With a non-empty list and a
  malformed string the error is raised as soon as the network section is accepted.
\<close>

theorem init_action_timeout_deferred:
  "ClusterGenerator_init (args\<lparr>init_action_timeout := t\<rparr>) =
     map_sum id (\<lambda>self. self\<lparr>init_action_timeout := t\<rparr>) (ClusterGenerator_init args) \<and>
   isl (ClusterGenerator_init (args\<lparr>init_action_timeout := t\<rparr>)) =
     isl (ClusterGenerator_init args) \<and>
   (ClusterGenerator_make fmt self = Inl init_action_timeout_error \<longrightarrow>
      truthy (init_actions_uris self) \<and> re_match ''sm'' (init_action_timeout self) = None) \<and>
   (\<not> truthy (init_actions_uris self) \<longrightarrow>
      ClusterGenerator_make fmt (self\<lparr>init_action_timeout := t\<rparr>) = ClusterGenerator_make fmt self) \<and>
   (truthy (init_actions_uris self) \<and> re_match ''sm'' (init_action_timeout self) = None \<and>
    \<not> (truthy_bool (internal_ip_only self) \<and> \<not> truthy (subnetwork_uri self)) \<longrightarrow>
      ClusterGenerator_make fmt self = Inl init_action_timeout_error)"
proof -
  have "isl (ClusterGenerator_init (args\<lparr>init_action_timeout := t\<rparr>)) =
     isl (ClusterGenerator_init args)"
    by (cases "ClusterGenerator_init args") (simp_all add: init_ignores_timeout)
  then show ?thesis
    using init_ignores_timeout[where args = args and t = t]
      make_timeout_error[where fmt = fmt and self = self]
      make_ignores_timeout[where self = self and fmt = fmt and t = t]
      make_raises_timeout[where self = self and fmt = fmt]
    by blast
qed

theorem init_action_timeout_deferred_witness:
  "(\<not> isl (ClusterGenerator_init ((ClusterGenerator_defaults ''p'' :: unit cluster_generator_args)
        \<lparr>num_workers := Some 2, init_action_timeout := ''abc''\<rparr>))) \<and>
   (ClusterGenerator_make (\<lambda>t. ''T'') (projr (ClusterGenerator_init
        ((ClusterGenerator_defaults ''p'' :: unit cluster_generator_args)
        \<lparr>num_workers := Some 2, init_actions_uris := Some [''gs://b/a.sh''],
          init_action_timeout := ''abc''\<rparr>))) = Inl init_action_timeout_error \<and>
    truthy (Some [''gs://b/a.sh'']) \<and> re_match ''sm'' ''abc'' = None) \<and>
   (\<not> truthy (None :: string list option) \<and>
    ClusterGenerator_make (\<lambda>t. ''T'') ((projr (ClusterGenerator_init
        ((ClusterGenerator_defaults ''p'' :: unit cluster_generator_args)
        \<lparr>num_workers := Some 2\<rparr>)))\<lparr>init_action_timeout := ''abc''\<rparr>) =
    ClusterGenerator_make (\<lambda>t. ''T'') (projr (ClusterGenerator_init
        ((ClusterGenerator_defaults ''p'' :: unit cluster_generator_args)
        \<lparr>num_workers := Some 2\<rparr>))))"
proof -
  let ?a = "(ClusterGenerator_defaults ''p'' :: unit cluster_generator_args)\<lparr>num_workers := Some 2\<rparr>"
  let ?g1 = "projr (ClusterGenerator_init
        ((ClusterGenerator_defaults ''p'' :: unit cluster_generator_args)
        \<lparr>num_workers := Some 2, init_actions_uris := Some [''gs://b/a.sh''],
          init_action_timeout := ''abc''\<rparr>))"
  let ?g0 = "projr (ClusterGenerator_init ?a)"
  have a: "\<not> isl (ClusterGenerator_init ?a)"
    by (simp add: gen_eval)
  have u1: "init_actions_uris ?g1 = Some [''gs://b/a.sh'']"
    and t1: "init_action_timeout ?g1 = ''abc''"
    and i1: "\<not> (truthy_bool (internal_ip_only ?g1) \<and> \<not> truthy (subnetwork_uri ?g1))"
    and u0: "init_actions_uris ?g0 = None"
    by (simp_all add: gen_eval)
  have m: "re_match ''sm'' ''abc'' = None"
    by (simp add: re_match_def re_match_core_def is_digit_def)
  have tr: "truthy (Some [''gs://b/a.sh''])" "\<not> truthy (None :: string list option)"
    by (simp_all add: truthy_def)
  show ?thesis
    using init_action_timeout_deferred
            [where args = ?a and t = "''abc''" and self = ?g1 and fmt = "\<lambda>t. ''T''"]
          init_action_timeout_deferred
            [where args = ?a and t = "''abc''" and self = ?g0 and fmt = "\<lambda>t. ''T''"]
          a u1 t1 i1 u0 m tr
    by simp
qed

section \<open>Properties of the create-cluster operator\<close>

lemmas op_eval =
  execute_def create_or_get_def check_and_wait_def and_then_def create_cluster_def
  get_cluster_def delete_cluster_def diagnose_cluster_def handle_error_state_def calls_def
  wait_for_cluster_in_deleting_state_def wait_for_cluster_in_creating_state_def
  exponential_sleep_generator_def cluster_conf_def still_deleting_error_def
  still_creating_error_def

subsection \<open>The backoff intervals and the events of a polling loop\<close>




lemma gen_ge: "10 \<le> exponential_sleep_generator 10 120 n"
  by (simp add: exponential_sleep_generator_def min_def)

lemma sleeps_append [simp]: "sleeps (xs @ ys) = sleeps xs @ sleeps ys"
  by (induction xs rule: sleeps.induct) auto


lemma slept_poll: "slept (poll_events n k) = backoff_total n k"
  by (induction k arbitrary: n) (simp_all add: slept_def)

lemma calls_append: "calls e (xs @ ys) = calls e xs + calls e ys"
  by (induction xs) (simp_all add: calls_def)

lemma calls_get_poll: "calls GetCluster (poll_events n k) = k"
  by (induction k arbitrary: n) (simp_all add: calls_def)

lemma xcom_poll: "filter is_xcom (poll_events n k) = []"
  by (induction k arbitrary: n) simp_all

lemma poll_events_snoc:
  "poll_events n (Suc k) = poll_events n k @ [Sleep (exponential_sleep_generator 10 120 (n + k)), GetCluster]"
  by (induction k arbitrary: n) simp_all

lemma backoff_total_snoc:
  "backoff_total n (Suc k) = backoff_total n k + exponential_sleep_generator 10 120 (n + k)"
  by (induction k arbitrary: n) simp_all

lemma backoff_nonneg: "0 \<le> backoff_total n k"
proof (induction k arbitrary: n)
  case 0 show ?case by simp
next
  case (Suc k)
  from gen_ge[of n] Suc[of "Suc n"] show ?case by simp
qed

lemma deleting_loop_trace:
  "\<exists>k. snd (deleting_loop self hook n t_left tr) = tr @ poll_events n k \<and>
       (k = 0 \<or> backoff_total n (k - 1) \<le> t_left) \<and>
       (fst (deleting_loop self hook n t_left tr) = Inl (still_deleting_error self) \<and>
        (\<forall>j. get_cluster_result hook j \<noteq> Inl (still_deleting_error self))
          \<longrightarrow> t_left < backoff_total n k)"
proof (induction self hook n t_left tr rule: deleting_loop.induct)
  case (1 self hook n t_left tr)
  let ?d = "exponential_sleep_generator 10 120 n"
  let ?tr1 = "tr @ [Sleep ?d]"
  let ?g = "get_cluster_result hook (calls GetCluster ?tr1)"
  show ?case
  proof (cases "t_left < 0")
    case True
    then have "deleting_loop self hook n t_left tr = (Inl (still_deleting_error self), tr)" by simp
    with True show ?thesis by (intro exI[of _ 0]) simp
  next
    case nt: False
    have gc: "get_cluster self hook ?tr1 = (?g, ?tr1 @ [GetCluster])"
      by (simp add: get_cluster_def)
    show ?thesis
    proof (cases ?g)
      case (Inl e)
      have "deleting_loop self hook n t_left tr = ((if e = NotFound then Inr () else Inl e), ?tr1 @ [GetCluster])"
        using nt gc Inl by (cases e) (simp_all)
      moreover have "e \<noteq> still_deleting_error self" if "\<forall>j. get_cluster_result hook j \<noteq> Inl (still_deleting_error self)"
        using that Inl by metis
      ultimately show ?thesis using nt
        by (intro exI[of _ 1]) (auto simp: still_deleting_error_def)
    next
      case (Inr c)
      have eq: "deleting_loop self hook n t_left tr = deleting_loop self hook (Suc n) (t_left - ?d) (?tr1 @ [GetCluster])"
        using nt gc Inr by simp
      from "1.IH"[OF nt gc[symmetric] Inr] obtain k where
        k: "snd (deleting_loop self hook (Suc n) (t_left - ?d) (?tr1 @ [GetCluster])) = (?tr1 @ [GetCluster]) @ poll_events (Suc n) k"
        "k = 0 \<or> backoff_total (Suc n) (k - 1) \<le> t_left - ?d"
        "fst (deleting_loop self hook (Suc n) (t_left - ?d) (?tr1 @ [GetCluster])) = Inl (still_deleting_error self) \<and>
          (\<forall>j. get_cluster_result hook j \<noteq> Inl (still_deleting_error self)) \<longrightarrow> t_left - ?d < backoff_total (Suc n) k"
        by blast
      have "backoff_total n (Suc k - 1) \<le> t_left"
      proof (cases k)
        case 0 with nt show ?thesis by simp
      next
        case (Suc k') with k(2) show ?thesis by simp
      qed
      with k(1,3) show ?thesis unfolding eq
        by (intro exI[of _ "Suc k"]) auto
    qed
  qed
qed

lemma creating_loop_trace:
  "\<exists>k. snd (creating_loop self hook n t_left c tr) = tr @ poll_events n k \<and>
       (k = 0 \<or> backoff_total n (k - 1) \<le> t_left) \<and>
       (fst (creating_loop self hook n t_left c tr) = Inl (still_creating_error self) \<and>
        (\<forall>j. get_cluster_result hook j \<noteq> Inl (still_creating_error self))
          \<longrightarrow> t_left < backoff_total n k)"
proof (induction self hook n t_left c tr rule: creating_loop.induct)
  case (1 self hook n t_left c tr)
  let ?d = "exponential_sleep_generator 10 120 n"
  let ?tr1 = "tr @ [Sleep ?d]"
  let ?g = "get_cluster_result hook (calls GetCluster ?tr1)"
  show ?case
  proof (cases "status_state c \<noteq> CREATING")
    case True
    then have "creating_loop self hook n t_left c tr = (Inr c, tr)" by simp
    then show ?thesis by (intro exI[of _ 0]) simp
  next
    case cr: False
    show ?thesis
    proof (cases "t_left < 0")
      case True
      with cr have "creating_loop self hook n t_left c tr = (Inl (still_creating_error self), tr)"
        by simp
      with True show ?thesis by (intro exI[of _ 0]) simp
    next
      case nt: False
      have gc: "get_cluster self hook ?tr1 = (?g, ?tr1 @ [GetCluster])"
        by (simp add: get_cluster_def)
      show ?thesis
      proof (cases ?g)
        case (Inl e)
        have "creating_loop self hook n t_left c tr = (Inl e, ?tr1 @ [GetCluster])"
          using cr nt gc Inl by simp
        moreover have "e \<noteq> still_creating_error self"
          if "\<forall>j. get_cluster_result hook j \<noteq> Inl (still_creating_error self)"
          using that Inl by metis
        ultimately show ?thesis using nt
          by (intro exI[of _ 1]) auto
      next
        case (Inr c')
        have eq: "creating_loop self hook n t_left c tr =
            creating_loop self hook (Suc n) (t_left - ?d) c' (?tr1 @ [GetCluster])"
          using cr nt gc Inr by simp
        from cr have cr': "\<not> status_state c \<noteq> CREATING" by simp
        from "1.IH"[OF cr' nt gc[symmetric] Inr] obtain k where
          k: "snd (creating_loop self hook (Suc n) (t_left - ?d) c' (?tr1 @ [GetCluster])) =
                (?tr1 @ [GetCluster]) @ poll_events (Suc n) k"
          "k = 0 \<or> backoff_total (Suc n) (k - 1) \<le> t_left - ?d"
          "fst (creating_loop self hook (Suc n) (t_left - ?d) c' (?tr1 @ [GetCluster])) =
             Inl (still_creating_error self) \<and>
           (\<forall>j. get_cluster_result hook j \<noteq> Inl (still_creating_error self)) \<longrightarrow>
             t_left - ?d < backoff_total (Suc n) k"
          by blast
        have "backoff_total n (Suc k - 1) \<le> t_left"
        proof (cases k)
          case 0 with nt show ?thesis by simp
        next
          case (Suc k') with k(2) show ?thesis by simp
        qed
        with k(1,3) show ?thesis unfolding eq
          by (intro exI[of _ "Suc k"]) auto
      qed
    qed
  qed
qed

lemma wait_creating_trace:
  "\<exists>k. snd (wait_for_cluster_in_creating_state self hook tr) =
         (if isl (get_cluster_result hook (calls GetCluster tr)) then tr @ [GetCluster]
          else tr @ GetCluster # poll_events 0 k) \<and>
       (k = 0 \<or> backoff_total 0 (k - 1) \<le> timeout self) \<and>
       (fst (wait_for_cluster_in_creating_state self hook tr) = Inl (still_creating_error self) \<and>
        (\<forall>j. get_cluster_result hook j \<noteq> Inl (still_creating_error self))
          \<longrightarrow> timeout self < backoff_total 0 k)"
proof (cases "get_cluster_result hook (calls GetCluster tr)")
  case (Inl e)
  then have w: "wait_for_cluster_in_creating_state self hook tr = (Inl e, tr @ [GetCluster])"
    by (simp add: wait_for_cluster_in_creating_state_def get_cluster_def and_then_def)
  have "e \<noteq> still_creating_error self"
    if "\<forall>j. get_cluster_result hook j \<noteq> Inl (still_creating_error self)"
    using that Inl by metis
  with w Inl show ?thesis by (intro exI[of _ 0]) auto
next
  case (Inr c)
  then have w: "wait_for_cluster_in_creating_state self hook tr =
      creating_loop self hook 0 (timeout self) c (tr @ [GetCluster])"
    by (simp add: wait_for_cluster_in_creating_state_def get_cluster_def and_then_def)
  from creating_loop_trace[of self hook 0 "timeout self" c "tr @ [GetCluster]"] Inr
  show ?thesis unfolding w by auto
qed




subsection \<open>Steps only append events\<close>

lemma aq_iff:
  "appends_quietly tr tr' \<longleftrightarrow> (\<exists>ext. tr' = tr @ ext \<and> filter is_xcom ext = [])"
proof
  assume a: "appends_quietly tr tr'"
  then have "tr' = tr @ drop (length tr) tr'"
    by (metis appends_quietly_def append_take_drop_id)
  with a show "\<exists>ext. tr' = tr @ ext \<and> filter is_xcom ext = []"
    unfolding appends_quietly_def by blast
next
  assume "\<exists>ext. tr' = tr @ ext \<and> filter is_xcom ext = []"
  then show "appends_quietly tr tr'" by (auto simp: appends_quietly_def)
qed

lemma aq_refl: "appends_quietly tr tr"
  by (simp add: appends_quietly_def)

lemma aq_append: "filter is_xcom ext = [] \<Longrightarrow> appends_quietly tr (tr @ ext)"
  by (simp add: appends_quietly_def)

lemma aq_trans:
  "appends_quietly a b \<Longrightarrow> appends_quietly b c \<Longrightarrow> appends_quietly a c"
  unfolding aq_iff by auto

lemma and_then_aq:
  assumes "appends_quietly tr (snd m)"
    and "\<And>x tr1. appends_quietly tr1 (snd (f x tr1))"
  shows "appends_quietly tr (snd (and_then m f))"
proof (cases m)
  case (Pair r tr1)
  show ?thesis
  proof (cases r)
    case (Inl e)
    with Pair assms(1) show ?thesis by (simp add: and_then_def)
  next
    case (Inr x)
    with Pair have "snd (and_then m f) = snd (f x tr1)" by (simp add: and_then_def)
    with assms(1) assms(2)[of tr1 x] Pair show ?thesis by (auto intro: aq_trans)
  qed
qed

lemma aq_create: "appends_quietly tr (snd (create_cluster self hook tr))"
  by (simp add: create_cluster_def aq_append)

lemma aq_get: "appends_quietly tr (snd (get_cluster self hook tr))"
  by (simp add: get_cluster_def aq_append)

lemma aq_delete: "appends_quietly tr (snd (delete_cluster self hook tr))"
  by (simp add: delete_cluster_def aq_append)

lemma aq_diagnose: "appends_quietly tr (snd (diagnose_cluster self hook tr))"
  by (simp add: diagnose_cluster_def aq_append)

lemma aq_handle: "appends_quietly tr (snd (handle_error_state self hook c tr))"
proof (cases "status_state c \<noteq> ERROR")
  case True
  then show ?thesis by (simp add: handle_error_state_def aq_refl)
next
  case False
  then have h: "handle_error_state self hook c tr =
      and_then (diagnose_cluster self hook tr) (\<lambda>gcs_uri tr1.
        if delete_on_error self then
          and_then (delete_cluster self hook tr1) (\<lambda>_ tr2.
            (Inl (AirflowException ''Cluster was created but was in ERROR state.''), tr2))
        else (Inl (AirflowException ''Cluster was created but is in ERROR state''), tr1))"
    by (simp add: handle_error_state_def)
  show ?thesis unfolding h
    by (intro and_then_aq aq_diagnose) (auto intro!: and_then_aq aq_delete aq_refl)
qed

lemma aq_wait_deleting:
  "appends_quietly tr (snd (wait_for_cluster_in_deleting_state self hook tr))"
  using deleting_loop_trace[of self hook 0 "timeout self" tr]
  by (auto simp: wait_for_cluster_in_deleting_state_def aq_iff xcom_poll)

lemma aq_wait_creating:
  "appends_quietly tr (snd (wait_for_cluster_in_creating_state self hook tr))"
proof -
  from wait_creating_trace[of self hook tr] obtain k where
    "snd (wait_for_cluster_in_creating_state self hook tr) =
       (if isl (get_cluster_result hook (calls GetCluster tr)) then tr @ [GetCluster]
        else tr @ GetCluster # poll_events 0 k)"
    by blast
  then show ?thesis by (simp add: aq_iff xcom_poll)
qed

lemma aq_create_or_get: "appends_quietly tr (snd (create_or_get self hook tr))"
proof (cases "create_cluster_result hook (calls CreateCluster tr)")
  case (Inl e)
  then show ?thesis
    by (cases e) (auto simp: create_or_get_def create_cluster_def get_cluster_def aq_append)
next
  case (Inr c)
  then show ?thesis by (simp add: create_or_get_def create_cluster_def aq_append)
qed

lemma aq_check_and_wait: "appends_quietly tr (snd (check_and_wait self hook c tr))"
  unfolding check_and_wait_def
  by (intro and_then_aq aq_handle)
     (auto intro!: and_then_aq aq_handle aq_wait_creating aq_wait_deleting aq_create aq_refl)

lemma aq_execute: "appends_quietly (tr @ [cluster_conf self]) (snd (execute self hook tr))"
  unfolding execute_def by (intro and_then_aq aq_create_or_get aq_check_and_wait)

text \<open>
  Claim C8. Every run of \<^verbatim>\<open>execute\<close> pushes the record
  \<open>{cluster_name, region, project_id}\<close> as its first event, before any call on the
  hook, and pushes no other record, whatever the hook returns or raises and whether
  \<^verbatim>\<open>execute\<close> returns or raises.
\<close>

theorem correlation_record_first:
  "take 1 (snd (execute self hook [])) = [cluster_conf self] \<and>
   filter is_xcom (snd (execute self hook [])) = [cluster_conf self] \<and>
   cluster_conf self =
     XcomPush ''cluster_conf''
       (JDict [(''cluster_name'', JStr (cluster_name self)),
               (''region'', JStr (create_cluster_operator.region self)),
               (''project_id'',
                  (case create_cluster_operator.project_id self of
                     None \<Rightarrow> JNone | Some p \<Rightarrow> JStr p))])"
proof -
  from aq_execute[of "[]" self hook] obtain ext where
    "snd (execute self hook []) = [cluster_conf self] @ ext" "filter is_xcom ext = []"
    unfolding aq_iff by auto
  then show ?thesis by (simp add: cluster_conf_def)
qed

theorem correlation_record_first_witness:
  "take 1 (snd (execute (example_operator 3600) (example_hook DELETING 2) [])) =
     [cluster_conf (example_operator 3600)] \<and>
   filter is_xcom (snd (execute (example_operator 3600) (example_hook DELETING 2) [])) =
     [cluster_conf (example_operator 3600)]"
  using correlation_record_first[of "example_operator 3600" "example_hook DELETING 2"]
  by simp

subsection \<open>The paths through execute\<close>


lemma handle_error_state_other:
  "status_state c \<noteq> ERROR \<Longrightarrow> handle_error_state self hook c tr = (Inr (), tr)"
  by (simp add: handle_error_state_def)


lemma execute_created:
  "create_cluster_result hook 0 = Inr c \<Longrightarrow>
   execute self hook [] = check_and_wait self hook c [cluster_conf self, CreateCluster]"
  by (simp add: execute_def create_or_get_def create_cluster_def and_then_def calls_def
        cluster_conf_def)

lemma execute_adopted:
  "create_cluster_result hook 0 = Inl AlreadyExists \<Longrightarrow> use_if_exists self \<Longrightarrow>
   get_cluster_result hook 0 = Inr c \<Longrightarrow>
   execute self hook [] =
     check_and_wait self hook c [cluster_conf self, CreateCluster, GetCluster]"
  by (simp add: execute_def create_or_get_def create_cluster_def get_cluster_def and_then_def
        calls_def cluster_conf_def)

lemma execute_adopt_fetch_raises:
  "create_cluster_result hook 0 = Inl AlreadyExists \<Longrightarrow> use_if_exists self \<Longrightarrow>
   get_cluster_result hook 0 = Inl e \<Longrightarrow>
   execute self hook [] = (Inl e, [cluster_conf self, CreateCluster, GetCluster])"
  by (simp add: execute_def create_or_get_def create_cluster_def get_cluster_def and_then_def
        calls_def cluster_conf_def)

lemma execute_not_adopted:
  "create_cluster_result hook 0 = Inl AlreadyExists \<Longrightarrow> \<not> use_if_exists self \<Longrightarrow>
   execute self hook [] = (Inl AlreadyExists, [cluster_conf self, CreateCluster])"
  by (simp add: execute_def create_or_get_def create_cluster_def and_then_def calls_def
        cluster_conf_def)

lemma check_and_wait_settled:
  "status_state c \<noteq> ERROR \<Longrightarrow> status_state c \<noteq> CREATING \<Longrightarrow> status_state c \<noteq> DELETING \<Longrightarrow>
   check_and_wait self hook c tr = (Inr c, tr)"
  by (simp add: check_and_wait_def handle_error_state_other and_then_def)

lemma calls_conf [simp]:
  "calls DiagnoseCluster [cluster_conf self, CreateCluster] = 0"
  "calls DiagnoseCluster [cluster_conf self, CreateCluster, GetCluster] = 0"
  "calls DeleteCluster [cluster_conf self, CreateCluster, DiagnoseCluster] = 0"
  "calls DeleteCluster [cluster_conf self, CreateCluster, GetCluster, DiagnoseCluster] = 0"
  by (simp_all add: calls_def cluster_conf_def)


lemma calls_pre [simp]:
  "calls DeleteCluster [cluster_conf self, CreateCluster] = 0"
  "calls DeleteCluster [cluster_conf self, CreateCluster, GetCluster] = 0"
  "calls GetCluster [cluster_conf self, CreateCluster, GetCluster] = 1"
  "calls CreateCluster [cluster_conf self, CreateCluster, GetCluster] = 1"
  by (simp_all add: calls_def cluster_conf_def)





text \<open>
  Claim C3. When the create call raises \<^verbatim>\<open>AlreadyExists\<close>: without
  \<^verbatim>\<open>use_if_exists\<close> the exception reaches the caller unchanged and nothing else is
  called; with \<^verbatim>\<open>use_if_exists\<close> the next call fetches the existing cluster and
  \<^verbatim>\<open>execute\<close> goes on with it exactly as it goes on with a created cluster (the
  last part of the statement), so a cluster that needs no wait is returned. An exception
  of the fetch is not caught.
\<close>

theorem already_exists_adopt_or_raise:
  "(create_cluster_result hook 0 = Inl AlreadyExists \<and> \<not> use_if_exists self \<longrightarrow>
      execute self hook [] = (Inl AlreadyExists, [cluster_conf self, CreateCluster])) \<and>
   (create_cluster_result hook 0 = Inl AlreadyExists \<and> use_if_exists self \<longrightarrow>
      take 3 (snd (execute self hook [])) = [cluster_conf self, CreateCluster, GetCluster] \<and>
      (\<forall>c. get_cluster_result hook 0 = Inr c \<longrightarrow>
         execute self hook [] =
           check_and_wait self hook c [cluster_conf self, CreateCluster, GetCluster] \<and>
         (status_state c \<noteq> ERROR \<and> status_state c \<noteq> CREATING \<and>
          status_state c \<noteq> DELETING \<longrightarrow>
            execute self hook [] = (Inr c, [cluster_conf self, CreateCluster, GetCluster]))) \<and>
      (\<forall>e. get_cluster_result hook 0 = Inl e \<longrightarrow>
         execute self hook [] = (Inl e, [cluster_conf self, CreateCluster, GetCluster]))) \<and>
   (\<forall>c. create_cluster_result hook 0 = Inr c \<longrightarrow>
      execute self hook [] = check_and_wait self hook c [cluster_conf self, CreateCluster])"
proof -
  have t: "take 3 (snd (execute self hook [])) = [cluster_conf self, CreateCluster, GetCluster]"
    if a: "create_cluster_result hook 0 = Inl AlreadyExists" "use_if_exists self"
  proof (cases "get_cluster_result hook 0")
    case (Inl e)
    from execute_adopt_fetch_raises[OF a Inl] show ?thesis by simp
  next
    case (Inr c)
    from aq_check_and_wait[of "[cluster_conf self, CreateCluster, GetCluster]" self hook c]
    show ?thesis unfolding execute_adopted[OF a Inr]
      by (simp add: appends_quietly_def eval_nat_numeral)
  qed
  show ?thesis
    using t execute_not_adopted[of hook self] execute_adopted[of hook self]
      execute_adopt_fetch_raises[of hook self] execute_created[of hook _ self]
      check_and_wait_settled[of _ self hook "[cluster_conf self, CreateCluster, GetCluster]"]
    by auto
qed

theorem already_exists_adopt_or_raise_witness:
  "create_cluster_result (example_hook RUNNING 1) 0 = Inl AlreadyExists \<and>
   \<not> use_if_exists ((example_operator 3600)\<lparr>use_if_exists := False\<rparr>) \<and>
   execute ((example_operator 3600)\<lparr>use_if_exists := False\<rparr>) (example_hook RUNNING 1) [] =
     (Inl AlreadyExists,
      [cluster_conf ((example_operator 3600)\<lparr>use_if_exists := False\<rparr>), CreateCluster]) \<and>
   use_if_exists (example_operator 3600) \<and>
   get_cluster_result (example_hook RUNNING 1) 0 = Inr (example_cluster RUNNING ''old'') \<and>
   execute (example_operator 3600) (example_hook RUNNING 1) [] =
     (Inr (example_cluster RUNNING ''old''),
      [cluster_conf (example_operator 3600), CreateCluster, GetCluster]) \<and>
   get_cluster_result (example_hook RUNNING 0) 0 = Inl NotFound \<and>
   execute (example_operator 3600) (example_hook RUNNING 0) [] =
     (Inl NotFound, [cluster_conf (example_operator 3600), CreateCluster, GetCluster])"
proof -
  have h: "create_cluster_result (example_hook RUNNING 1) 0 = Inl AlreadyExists"
    "create_cluster_result (example_hook RUNNING 0) 0 = Inl AlreadyExists"
    "get_cluster_result (example_hook RUNNING 1) 0 = Inr (example_cluster RUNNING ''old'')"
    "get_cluster_result (example_hook RUNNING 0) 0 = Inl NotFound"
    by (simp_all add: example_hook_def)
  have o: "use_if_exists (example_operator 3600)"
    "\<not> use_if_exists ((example_operator 3600)\<lparr>use_if_exists := False\<rparr>)"
    by (simp_all add: example_operator_def)
  have c: "status_state (example_cluster RUNNING ''old'') = RUNNING"
    by (simp add: example_cluster_def)
  show ?thesis
    using already_exists_adopt_or_raise
            [of "example_hook RUNNING 1" "(example_operator 3600)\<lparr>use_if_exists := False\<rparr>"]
          already_exists_adopt_or_raise
            [of "example_hook RUNNING 1" "example_operator 3600"]
          already_exists_adopt_or_raise
            [of "example_hook RUNNING 0" "example_operator 3600"]
          h o c
    by (simp add: check_and_wait_settled)
qed

subsection \<open>Waiting for a cluster to disappear\<close>

lemma deleting_loop_not_found:
  assumes "\<forall>i<k. \<not> isl (get_cluster_result hook (calls GetCluster tr + i))"
    and "get_cluster_result hook (calls GetCluster tr + k) = Inl NotFound"
    and "backoff_total n k \<le> t_left"
  shows "deleting_loop self hook n t_left tr = (Inr (), tr @ poll_events n (Suc k))"
  using assms
proof (induction k arbitrary: n t_left tr)
  case 0
  then have "\<not> t_left < 0" by simp
  with 0 show ?case by (simp add: get_cluster_def calls_append calls_def)
next
  case (Suc k)
  let ?d = "exponential_sleep_generator 10 120 n"
  let ?tr' = "(tr @ [Sleep ?d]) @ [GetCluster]"
  from Suc.prems(3) backoff_nonneg[of "Suc n" k] gen_ge[of n] have nt: "\<not> t_left < 0" by simp
  from Suc.prems(1) obtain c where c: "get_cluster_result hook (calls GetCluster tr) = Inr c"
    by (cases "get_cluster_result hook (calls GetCluster tr)") force+
  have g: "calls GetCluster ?tr' = Suc (calls GetCluster tr)"
    by (simp add: calls_append calls_def)
  have "deleting_loop self hook (Suc n) (t_left - ?d) ?tr' =
      (Inr (), ?tr' @ poll_events (Suc n) (Suc k))"
  proof (rule Suc.IH)
    show "\<forall>i<k. \<not> isl (get_cluster_result hook (calls GetCluster ?tr' + i))"
      using Suc.prems(1) unfolding g by auto
    show "get_cluster_result hook (calls GetCluster ?tr' + k) = Inl NotFound"
      using Suc.prems(2) unfolding g by simp
    show "backoff_total (Suc n) k \<le> t_left - ?d"
      using Suc.prems(3) by simp
  qed
  moreover have "deleting_loop self hook n t_left tr =
      deleting_loop self hook (Suc n) (t_left - ?d) ?tr'"
    using nt c by (simp add: get_cluster_def calls_append calls_def)
  ultimately show ?case by simp
qed

lemma deleting_loop_returns:
  "fst (deleting_loop self hook n t_left tr) = Inr () \<Longrightarrow>
   \<exists>k. snd (deleting_loop self hook n t_left tr) = tr @ poll_events n (Suc k) \<and>
       get_cluster_result hook (calls GetCluster tr + k) = Inl NotFound \<and>
       (\<forall>i<k. \<not> isl (get_cluster_result hook (calls GetCluster tr + i)))"
proof (induction self hook n t_left tr rule: deleting_loop.induct)
  case (1 self hook n t_left tr)
  let ?d = "exponential_sleep_generator 10 120 n"
  let ?tr1 = "tr @ [Sleep ?d]"
  let ?g = "get_cluster_result hook (calls GetCluster ?tr1)"
  have ge: "calls GetCluster ?tr1 = calls GetCluster tr" by (simp add: calls_append calls_def)
  from "1.prems" have nt: "\<not> t_left < 0" by (auto split: if_splits)
  have gc: "get_cluster self hook ?tr1 = (?g, ?tr1 @ [GetCluster])"
    by (simp add: get_cluster_def)
  show ?case
  proof (cases ?g)
    case (Inl e)
    have r: "deleting_loop self hook n t_left tr =
        ((if e = NotFound then Inr () else Inl e), ?tr1 @ [GetCluster])"
      using nt gc Inl by (cases e) simp_all
    with "1.prems" have "e = NotFound" by (auto split: if_splits)
    with r Inl ge show ?thesis by (intro exI[of _ 0]) simp
  next
    case (Inr c)
    have eq: "deleting_loop self hook n t_left tr =
        deleting_loop self hook (Suc n) (t_left - ?d) (?tr1 @ [GetCluster])"
      using nt gc Inr by simp
    have g: "calls GetCluster (?tr1 @ [GetCluster]) = Suc (calls GetCluster tr)"
      by (simp add: calls_append calls_def)
    from "1.IH"[OF nt gc[symmetric] Inr] "1.prems" eq obtain k where
      k: "snd (deleting_loop self hook (Suc n) (t_left - ?d) (?tr1 @ [GetCluster])) =
            (?tr1 @ [GetCluster]) @ poll_events (Suc n) (Suc k)"
         "get_cluster_result hook (Suc (calls GetCluster tr) + k) = Inl NotFound"
         "\<forall>i<k. \<not> isl (get_cluster_result hook (Suc (calls GetCluster tr) + i))"
      unfolding g by auto
    have "\<forall>i<Suc k. \<not> isl (get_cluster_result hook (calls GetCluster tr + i))"
    proof (intro allI impI)
      fix i assume "i < Suc k"
      show "\<not> isl (get_cluster_result hook (calls GetCluster tr + i))"
      proof (cases i)
        case 0 with Inr ge show ?thesis by simp
      next
        case (Suc j)
        with \<open>i < Suc k\<close> k(3) show ?thesis by simp
      qed
    qed
    with k(1,2) show ?thesis unfolding eq by (intro exI[of _ "Suc k"]) simp
  qed
qed

lemma calls_create_poll: "calls CreateCluster (poll_events n k) = 0"
  by (induction k arbitrary: n) (simp_all add: calls_def)

text \<open>
  Claim C4. When the adopted cluster is in state \<^verbatim>\<open>DELETING\<close>, \<^verbatim>\<open>execute\<close>
  polls: if the next \<open>k\<close> fetches return a cluster, the fetch after them raises
  \<^verbatim>\<open>NotFound\<close> and the timeout allows these rounds, then exactly \<open>k + 1\<close> fetches
  are made, one after each sleep, a new create follows, and its cluster is returned (it is
  not in state \<^verbatim>\<open>ERROR\<close>). The last part: whenever the wait returns, it has fetched
  until the fetch raised \<^verbatim>\<open>NotFound\<close>, all earlier fetches having returned a cluster.
\<close>

theorem deleting_then_recreate:
  "(create_cluster_result hook 0 = Inl AlreadyExists \<and> use_if_exists self \<and>
    get_cluster_result hook 0 = Inr c \<and> status_state c = DELETING \<and>
    (\<forall>i<k. \<not> isl (get_cluster_result hook (Suc i))) \<and>
    get_cluster_result hook (Suc k) = Inl NotFound \<and>
    slept (poll_events 0 k) \<le> timeout self \<and>
    create_cluster_result hook 1 = Inr c' \<and> status_state c' \<noteq> ERROR \<longrightarrow>
      execute self hook [] =
        (Inr c', [cluster_conf self, CreateCluster, GetCluster] @ poll_events 0 (Suc k) @
                 [CreateCluster]) \<and>
      calls GetCluster (poll_events 0 (Suc k)) = Suc k) \<and>
   (fst (wait_for_cluster_in_deleting_state self hook tr) = Inr () \<longrightarrow>
      (\<exists>m. snd (wait_for_cluster_in_deleting_state self hook tr) =
              tr @ poll_events 0 (Suc m) \<and>
            get_cluster_result hook (calls GetCluster tr + m) = Inl NotFound \<and>
            (\<forall>i<m. \<not> isl (get_cluster_result hook (calls GetCluster tr + i)))))"
proof (intro conjI impI)
  assume a: "create_cluster_result hook 0 = Inl AlreadyExists \<and> use_if_exists self \<and>
    get_cluster_result hook 0 = Inr c \<and> status_state c = DELETING \<and>
    (\<forall>i<k. \<not> isl (get_cluster_result hook (Suc i))) \<and>
    get_cluster_result hook (Suc k) = Inl NotFound \<and>
    slept (poll_events 0 k) \<le> timeout self \<and>
    create_cluster_result hook 1 = Inr c' \<and> status_state c' \<noteq> ERROR"
  let ?pre = "[cluster_conf self, CreateCluster, GetCluster]"
  from a have ex: "execute self hook [] = check_and_wait self hook c ?pre"
    by (intro execute_adopted) simp_all
  have w: "wait_for_cluster_in_deleting_state self hook ?pre =
      (Inr (), ?pre @ poll_events 0 (Suc k))"
    unfolding wait_for_cluster_in_deleting_state_def
    using a by (intro deleting_loop_not_found) (simp_all add: slept_poll)
  have cr: "create_cluster self hook (?pre @ poll_events 0 (Suc k)) =
      (Inr c', (?pre @ poll_events 0 (Suc k)) @ [CreateCluster])"
    using a unfolding create_cluster_def calls_append calls_create_poll by simp
  from a have st: "status_state c \<noteq> ERROR" "status_state c \<noteq> CREATING" "status_state c = DELETING"
    by simp_all
  from a have st': "status_state c' \<noteq> ERROR" by simp
  show "execute self hook [] =
        (Inr c', [cluster_conf self, CreateCluster, GetCluster] @ poll_events 0 (Suc k) @
                 [CreateCluster])"
    unfolding ex check_and_wait_def handle_error_state_other[OF st(1)]
    using st(2,3) w cr handle_error_state_other[OF st']
    by (simp add: and_then_def)
next
  show "calls GetCluster (poll_events 0 (Suc k)) = Suc k" by (rule calls_get_poll)
next
  assume "fst (wait_for_cluster_in_deleting_state self hook tr) = Inr ()"
  then show "\<exists>m. snd (wait_for_cluster_in_deleting_state self hook tr) =
              tr @ poll_events 0 (Suc m) \<and>
            get_cluster_result hook (calls GetCluster tr + m) = Inl NotFound \<and>
            (\<forall>i<m. \<not> isl (get_cluster_result hook (calls GetCluster tr + i)))"
    unfolding wait_for_cluster_in_deleting_state_def by (rule deleting_loop_returns)
qed

theorem deleting_then_recreate_witness:
  "create_cluster_result (example_hook DELETING 3) 0 = Inl AlreadyExists \<and>
   use_if_exists (example_operator 3600) \<and>
   get_cluster_result (example_hook DELETING 3) 0 = Inr (example_cluster DELETING ''old'') \<and>
   status_state (example_cluster DELETING ''old'') = DELETING \<and>
   \<not> isl (get_cluster_result (example_hook DELETING 3) (Suc 0)) \<and>
   \<not> isl (get_cluster_result (example_hook DELETING 3) (Suc 1)) \<and>
   get_cluster_result (example_hook DELETING 3) (Suc 2) = Inl NotFound \<and>
   slept (poll_events 0 2) \<le> timeout (example_operator 3600) \<and>
   create_cluster_result (example_hook DELETING 3) 1 = Inr (example_cluster RUNNING ''new'') \<and>
   status_state (example_cluster RUNNING ''new'') \<noteq> ERROR \<and>
   execute (example_operator 3600) (example_hook DELETING 3) [] =
     (Inr (example_cluster RUNNING ''new''),
      [cluster_conf (example_operator 3600), CreateCluster, GetCluster,
       Sleep 10, GetCluster, Sleep 20, GetCluster, Sleep 40, GetCluster, CreateCluster]) \<and>
   fst (wait_for_cluster_in_deleting_state (example_operator 3600) (example_hook DELETING 3)
          [GetCluster]) = Inr () \<and>
   (\<exists>m. snd (wait_for_cluster_in_deleting_state (example_operator 3600)
               (example_hook DELETING 3) [GetCluster]) = [GetCluster] @ poll_events 0 (Suc m) \<and>
        get_cluster_result (example_hook DELETING 3) (calls GetCluster [GetCluster] + m) =
          Inl NotFound)"
proof -
  have h: "create_cluster_result (example_hook DELETING 3) 0 = Inl AlreadyExists"
    "get_cluster_result (example_hook DELETING 3) 0 = Inr (example_cluster DELETING ''old'')"
    "\<forall>i<2. \<not> isl (get_cluster_result (example_hook DELETING 3) (Suc i))"
    "get_cluster_result (example_hook DELETING 3) (Suc 2) = Inl NotFound"
    "create_cluster_result (example_hook DELETING 3) 1 = Inr (example_cluster RUNNING ''new'')"
    by (simp_all add: example_hook_def)
  have o: "use_if_exists (example_operator 3600)" "timeout (example_operator 3600) = 3600"
    by (simp_all add: example_operator_def)
  have c: "status_state (example_cluster DELETING ''old'') = DELETING"
    "status_state (example_cluster RUNNING ''new'') \<noteq> ERROR"
    by (simp_all add: example_cluster_def)
  have p: "poll_events 0 (Suc 2) =
      [Sleep 10, GetCluster, Sleep 20, GetCluster, Sleep 40, GetCluster]"
    "slept (poll_events 0 2) = 30"
    by (simp_all add: eval_nat_numeral exponential_sleep_generator_def slept_def)
  have w: "fst (wait_for_cluster_in_deleting_state (example_operator 3600)
             (example_hook DELETING 3) [GetCluster]) = Inr ()"
    by (simp add: op_eval example_operator_def example_hook_def)
  show ?thesis
    using deleting_then_recreate
            [of "example_hook DELETING 3" "example_operator 3600"
                "example_cluster DELETING ''old''" 2 "example_cluster RUNNING ''new''"
                "[GetCluster]"]
          h o c p w
    by auto
qed

section \<open>Properties of job submission\<close>

text \<open>
  Claim C9. A synchronous submission (a job template is set, \<^verbatim>\<open>asynchronous\<close> is
  false) whose error states are \<open>{'ERROR'}\<close>, the default of the constructor, and whose
  submit call returns a job id: when the job ends in state \<open>ERROR\<close> the run raises
  \<open>JobExecutionError\<close>, when it ends in state \<open>DONE\<close> the run returns that job id.
\<close>

theorem job_error_state_raises:
  "init_job_error_states None = {''ERROR''} \<and>
   (job_template self \<noteq> None \<and> \<not> asynchronous self \<and>
    job_error_states self = init_job_error_states None \<and>
    submit_job_result hook = Inr job_id \<longrightarrow>
      (job_terminal_state hook = ''ERROR'' \<longrightarrow>
         fst (DataprocJobBaseOperator_execute self hook) = Inl JobExecutionError) \<and>
      (job_terminal_state hook = ''DONE'' \<longrightarrow>
         fst (DataprocJobBaseOperator_execute self hook) = Inr job_id))"
  by (auto simp: DataprocJobBaseOperator_execute_def init_job_error_states_def wait_for_job_def
        default_error_states_def Let_def split: option.splits)

theorem job_error_state_raises_witness:
  "job_template example_job_operator \<noteq> None \<and> \<not> asynchronous example_job_operator \<and>
   job_error_states example_job_operator = init_job_error_states None \<and>
   submit_job_result (example_job_hook ''ERROR'') = Inr ''job_1a2b3c4d'' \<and>
   job_terminal_state (example_job_hook ''ERROR'') = ''ERROR'' \<and>
   fst (DataprocJobBaseOperator_execute example_job_operator (example_job_hook ''ERROR'')) =
     Inl JobExecutionError \<and>
   submit_job_result (example_job_hook ''DONE'') = Inr ''job_1a2b3c4d'' \<and>
   job_terminal_state (example_job_hook ''DONE'') = ''DONE'' \<and>
   fst (DataprocJobBaseOperator_execute example_job_operator (example_job_hook ''DONE'')) =
     Inr ''job_1a2b3c4d''"
proof -
  have o: "job_template example_job_operator \<noteq> None" "\<not> asynchronous example_job_operator"
    "job_error_states example_job_operator = init_job_error_states None"
    by (simp_all add: example_job_operator_def)
  have h: "submit_job_result (example_job_hook ''ERROR'') = Inr ''job_1a2b3c4d''"
    "job_terminal_state (example_job_hook ''ERROR'') = ''ERROR''"
    "submit_job_result (example_job_hook ''DONE'') = Inr ''job_1a2b3c4d''"
    "job_terminal_state (example_job_hook ''DONE'') = ''DONE''"
    by (simp_all add: example_job_hook_def)
  show ?thesis
    using job_error_state_raises
            [of example_job_operator "example_job_hook ''ERROR''" "''job_1a2b3c4d''"]
          job_error_state_raises
            [of example_job_operator "example_job_hook ''DONE''" "''job_1a2b3c4d''"]
          o h
    by simp
qed


end
